theory Spec2Isabelle
  imports Complex_Main "HOL-Library.Word" "HOL-Library.Log_Nat"
begin

section \<open>Python values and built-ins used by main.py\<close>

text \<open>
  A Python \<open>str\<close> is modelled as an Isabelle \<open>string\<close>: each \<open>char\<close> is read as the
  code point of the same number, so the model covers text whose code points lie below 256.
  A Python \<open>float\<close> is an IEEE double, modelled as the rational number it denotes; float
  arithmetic rounds its exact result to the nearest double. Integers are unbounded (\<open>int\<close>).
\<close>

datatype exn =
    ModelError string
  | JSONDecodeError string
  | AttributeError string
  | TypeError string
  | ValueError string

text \<open>The values \<open>json.loads\<close> can produce, which are also the values of the dicts returned.
  A dict is the list of its items in insertion order, each key once.\<close>

datatype pyval =
    PNone
  | PBool bool
  | PInt int
  | PFloat rat
  | PStr string
  | PList "pyval list"
  | PDict "(string \<times> pyval) list"

subsection \<open>Strings\<close>

text \<open>\<open>str.lower()\<close>: A-Z and the upper-case letters of the range 0xC0-0xDE (0xD7 is the
  multiplication sign) move up by 32; every other code point below 256 is unchanged.\<close>

definition lower_char :: "char \<Rightarrow> char" where
  "lower_char c =
     (let n = (of_char c :: nat)
      in if (65 \<le> n \<and> n \<le> 90) \<or> (192 \<le> n \<and> n \<le> 222 \<and> n \<noteq> 215)
         then char_of (n + 32) else c)"

definition lower :: "string \<Rightarrow> string" where
  "lower s = map lower_char s"

text \<open>The title-case of one character, as \<open>str.capitalize()\<close> applies it to the first
  character. 0xDF (sharp s) becomes \<open>Ss\<close>. The title-case of 0xB5 and 0xFF lies above 255;
  the model leaves these two unchanged.\<close>

definition title_char :: "char \<Rightarrow> string" where
  "title_char c =
     (let n = (of_char c :: nat)
      in if (97 \<le> n \<and> n \<le> 122) \<or> (224 \<le> n \<and> n \<le> 254 \<and> n \<noteq> 247)
         then [char_of (n - 32)]
         else if n = 223 then ''Ss'' else [c])"

fun capitalize :: "string \<Rightarrow> string" where
  "capitalize [] = []"
| "capitalize (c # cs) = title_char c @ lower cs"

text \<open>\<open>str.isspace()\<close> on one code point below 256.\<close>

definition isspace :: "char \<Rightarrow> bool" where
  "isspace c =
     (let n = (of_char c :: nat)
      in (9 \<le> n \<and> n \<le> 13) \<or> (28 \<le> n \<and> n \<le> 32) \<or> n = 133 \<or> n = 160)"

definition strip :: "string \<Rightarrow> string" where
  "strip s = rev (dropWhile isspace (rev (dropWhile isspace s)))"

text \<open>\<open>s.replace(old, new)\<close> for a one-character \<open>old\<close>, the only form main.py uses.\<close>

definition replace :: "string \<Rightarrow> char \<Rightarrow> string \<Rightarrow> string" where
  "replace s old new = concat (map (\<lambda>c. if c = old then new else [c]) s)"

fun starts_with :: "string \<Rightarrow> string \<Rightarrow> bool" where
  "starts_with s [] = True"
| "starts_with [] (p # ps) = False"
| "starts_with (c # cs) (p # ps) = (c = p \<and> starts_with cs ps)"

text \<open>\<open>sub in s\<close> on strings.\<close>

fun contains :: "string \<Rightarrow> string \<Rightarrow> bool" where
  "contains sub [] = (sub = [])"
| "contains sub (c # cs) = (starts_with (c # cs) sub \<or> contains sub cs)"

text \<open>\<open>str(n)\<close> and \<open>f"{n}"\<close> for an int.\<close>

definition digit_char :: "nat \<Rightarrow> char" where
  "digit_char d = char_of (48 + d)"

fun str_nat :: "nat \<Rightarrow> string" where
  "str_nat n = (if n < 10 then [digit_char n] else str_nat (n div 10) @ [digit_char (n mod 10)])"

declare str_nat.simps [simp del]

definition str_int :: "int \<Rightarrow> string" where
  "str_int i = (if i < 0 then CHR ''-'' # str_nat (nat (- i)) else str_nat (nat i))"

text \<open>\<open>str.encode()\<close>: UTF-8. A code point below 128 is one byte, one from 128 to 255 two.\<close>

definition encode_char :: "char \<Rightarrow> 8 word list" where
  "encode_char c =
     (let n = (of_char c :: nat)
      in if n < 128 then [of_nat n] else [of_nat (192 + n div 64), of_nat (128 + n mod 64)])"

definition encode :: "string \<Rightarrow> 8 word list" where
  "encode s = concat (map encode_char s)"

subsection \<open>Hex digests\<close>

definition hex_char :: "nat \<Rightarrow> char" where
  "hex_char d = (if d < 10 then char_of (48 + d) else char_of (87 + d))"

fun hex_digits :: "nat \<Rightarrow> nat \<Rightarrow> string" where
  "hex_digits 0 v = []"
| "hex_digits (Suc n) v = hex_digits n (v div 16) @ [hex_char (v mod 16)]"

text \<open>\<open>hexdigest()\<close> of a 16-byte digest, read as a 128-bit big-endian number: 32 lower-case
  hex digits.\<close>

definition hexdigest :: "128 word \<Rightarrow> string" where
  "hexdigest d = hex_digits 32 (unat d)"

definition hex_value :: "char \<Rightarrow> nat option" where
  "hex_value c =
     (let n = (of_char c :: nat)
      in if 48 \<le> n \<and> n \<le> 57 then Some (n - 48)
         else if 97 \<le> n \<and> n \<le> 102 then Some (n - 87)
         else if 65 \<le> n \<and> n \<le> 70 then Some (n - 55)
         else None)"

fun parse_hex :: "nat \<Rightarrow> string \<Rightarrow> nat option" where
  "parse_hex acc [] = Some acc"
| "parse_hex acc (c # cs) =
     (case hex_value c of None \<Rightarrow> None | Some d \<Rightarrow> parse_hex (16 * acc + d) cs)"

text \<open>\<open>int(s, 16)\<close> on a string of hex digits. Python also accepts a sign, a \<open>0x\<close> prefix,
  underscores and surrounding whitespace; none of them occurs in a hex digest, and the model
  raises on them, as on the empty string.\<close>

definition int16 :: "string \<Rightarrow> exn + int" where
  "int16 s =
     (if s = [] then Inl (ValueError ''invalid literal for int() with base 16'')
      else case parse_hex 0 s of
             None \<Rightarrow> Inl (ValueError ''invalid literal for int() with base 16'')
           | Some v \<Rightarrow> Inr (int v))"

subsection \<open>Doubles\<close>

text \<open>Rounding to the nearest integer, a tie going to the even one.\<close>

definition round_half_even :: "rat \<Rightarrow> int" where
  "round_half_even x =
     (let f = \<lfloor>x\<rfloor>; d = x - of_int f
      in if d < 1 / 2 then f else if 1 / 2 < d then f + 1 else if even f then f else f + 1)"

text \<open>The binary exponent of a positive number: \<open>2 powi e \<le> x < 2 powi (e + 1)\<close>.\<close>

definition exponent :: "rat \<Rightarrow> int" where
  "exponent x = (if 1 \<le> x then bitlen \<lfloor>x\<rfloor> - 1 else - bitlen (\<lceil>1 / x\<rceil> - 1))"

text \<open>The double nearest to a number, a tie going to the even significand: 53 significant
  bits, with the fixed spacing of the subnormal range below \<open>2 powi (- 1022)\<close>. A float literal
  such as \<open>4.9\<close> denotes \<open>to_double (49 / 10)\<close>. Overflow to infinity is not modelled; main.py
  computes no float above 60.\<close>

definition to_double :: "rat \<Rightarrow> rat" where
  "to_double x =
     (if x = 0 then 0
      else let a = \<bar>x\<bar>; q = 2 powi (max (exponent a) (- 1022) - 52)
           in sgn x * (of_int (round_half_even (a / q)) * q))"

definition float_add :: "rat \<Rightarrow> rat \<Rightarrow> rat" where
  "float_add x y = to_double (x + y)"

definition float_sub :: "rat \<Rightarrow> rat \<Rightarrow> rat" where
  "float_sub x y = to_double (x - y)"

definition float_mul :: "rat \<Rightarrow> rat \<Rightarrow> rat" where
  "float_mul x y = to_double (x * y)"

subsection \<open>Library functions and process state\<close>

text \<open>
  The library code main.py calls is not part of the repository and is a parameter of the
  model:
  \<^item> \<open>rng_seed\<close>, \<open>rng_random\<close>, \<open>rng_randbelow\<close>: the module-level generator of \<open>random\<close>.
    \<open>random.seed(s)\<close> sets the state from a string, \<open>random.random()\<close> draws a double,
    \<open>Random._randbelow(n)\<close> draws an int; each draw returns the next state;
  \<^item> \<open>py_hash\<close>: the built-in \<open>hash\<close> on strings, fixed for the lifetime of a process;
  \<^item> \<open>md5\<close>: \<open>hashlib.md5(bytes).digest()\<close> as a 128-bit number;
  \<^item> \<open>json_loads\<close>: \<open>json.loads\<close>, which raises on malformed text;
  \<^item> \<open>model\<close>: the global \<open>model\<close>, \<open>None\<close> or a client whose \<open>generate_content(prompt)\<close>
    followed by \<open>.text\<close> raises or yields the response text, and moves the client's state.
\<close>

record ('g, 'm) env =
  rng_seed :: "string \<Rightarrow> 'g"
  rng_random :: "'g \<Rightarrow> rat \<times> 'g"
  rng_randbelow :: "nat \<Rightarrow> 'g \<Rightarrow> nat \<times> 'g"
  py_hash :: "string \<Rightarrow> int"
  md5 :: "8 word list \<Rightarrow> 128 word"
  json_loads :: "string \<Rightarrow> exn + pyval"
  model :: "(string \<Rightarrow> 'm \<Rightarrow> (exn + string) \<times> 'm) option"

text \<open>The state a request can change: the generator's state, the client's state, the number
  of calls made to the client, and the arguments of the \<open>time.sleep\<close> calls so far.\<close>

record ('g, 'm) world =
  rng_state :: 'g
  client_state :: 'm
  calls :: nat
  slept :: "rat list"

definition sleep :: "rat \<Rightarrow> ('g, 'm) world \<Rightarrow> ('g, 'm) world" where
  "sleep t w = w\<lparr>slept := slept w @ [t]\<rparr>"

text \<open>The contract of the generator: \<open>random()\<close> lies in [0, 1), \<open>_randbelow(n)\<close> in [0, n).\<close>

definition rng_ok :: "('g, 'm) env \<Rightarrow> bool" where
  "rng_ok E \<longleftrightarrow>
     (\<forall>g. 0 \<le> fst (rng_random E g) \<and> fst (rng_random E g) < 1) \<and>
     (\<forall>n g. 0 < n \<longrightarrow> fst (rng_randbelow E n g) < n)"

section \<open>Email verification\<close>

record VerifyEmailRequest =
  ve_email :: string

definition verify_email ::
  "('g, 'm) env \<Rightarrow> VerifyEmailRequest \<Rightarrow> ('g, 'm) world \<Rightarrow> (exn + pyval) \<times> ('g, 'm) world" where
  "verify_email E request w =
     (let w1 = sleep (1 / 2) w;
          e = strip (lower (ve_email request))
      in case int16 (hexdigest (md5 E (encode e))) of
           Inl x \<Rightarrow> (Inl x, w1)
         | Inr h \<Rightarrow>
             (Inr (PDict [(''status'', PStr (if h mod 5 = 0 then ''invalid'' else ''valid''))]), w1))"

section \<open>Lead scouting\<close>

text \<open>The dicts both scout services return, with the keys of \<open>BusinessProfile\<close>. \<open>id\<close> and
  \<open>name\<close> are strings on both paths; the other values are whatever the path puts there.\<close>

record BusinessProfile =
  p_id :: string
  p_name :: string
  p_industry :: pyval
  p_location :: pyval
  p_website :: pyval
  p_phone :: pyval
  p_email :: pyval
  p_social_media :: pyval
  p_source_url :: pyval
  p_rating :: pyval
  p_review_count :: pyval

record ScoutRequest =
  sr_industry :: string
  sr_location :: string
  sr_page :: int

subsection \<open>The functions of \<open>random\<close> that main.py calls\<close>

text \<open>\<open>random.choice(seq)\<close> is \<open>seq[_randbelow(len(seq))]\<close>.\<close>

definition choice :: "('g, 'm) env \<Rightarrow> 'a list \<Rightarrow> 'g \<Rightarrow> 'a \<times> 'g" where
  "choice E xs g = (let (i, g') = rng_randbelow E (length xs) g in (xs ! i, g'))"

text \<open>\<open>random.uniform(a, b)\<close> is \<open>a + (b - a) * random()\<close>, in float arithmetic.\<close>

definition uniform :: "('g, 'm) env \<Rightarrow> rat \<Rightarrow> rat \<Rightarrow> 'g \<Rightarrow> rat \<times> 'g" where
  "uniform E a b g =
     (let (u, g') = rng_random E g in (float_add a (float_mul (float_sub b a) u), g'))"

text \<open>\<open>random.randint(a, b)\<close> is \<open>a + _randbelow(b + 1 - a)\<close>; the ranges main.py asks for
  are constant and not empty.\<close>

definition randint :: "('g, 'm) env \<Rightarrow> int \<Rightarrow> int \<Rightarrow> 'g \<Rightarrow> int \<times> 'g" where
  "randint E a b g = (let (k, g') = rng_randbelow E (nat (b + 1 - a)) g in (a + int k, g'))"

text \<open>\<open>round(x, 1)\<close> on a float: the exact value of \<open>x\<close> is rounded to the nearest tenth, a tie
  going to the even tenth, and the result is the double nearest to that tenth.\<close>

definition round1 :: "rat \<Rightarrow> rat" where
  "round1 x = to_double (of_int (round_half_even (x * 10)) / 10)"

subsection \<open>The synthetic variant\<close>

definition base_names :: "string list" where
  "base_names = [''Apex'', ''Elite'', ''Prime'', ''Cornerstone'', ''Trusted'', ''Summit'',
     ''Vanguard'', ''Pinnacle'', ''NextLevel'', ''Local'']"

definition suffixes :: "string list" where
  "suffixes = [''Solutions'', ''Services'', ''Inc'', ''Co'', ''Group'', ''Partners'',
     ''Associates'', ''Pros'']"

text \<open>The website-presence draw that opens each pass of the loop.\<close>

definition has_site_draw :: "('g, 'm) env \<Rightarrow> 'g \<Rightarrow> bool \<times> 'g" where
  "has_site_draw E g = choice E [True, False, False, False, False] g"

text \<open>One pass of the body of \<open>for i in range(10)\<close>: the draws in the order the body makes
  them, and the dict it appends.\<close>

definition mock_lead ::
  "('g, 'm) env \<Rightarrow> string \<Rightarrow> string \<Rightarrow> int \<Rightarrow> 'g \<Rightarrow> BusinessProfile \<times> 'g" where
  "mock_lead E industry location page g =
     (let (has_site, g1) = has_site_draw E g;
          (base, g2) = choice E base_names g1;
          (suffix, g3) = choice E suffixes g2;
          name0 = base @ '' '' @ capitalize industry @ '' '' @ suffix;
          name = (if page > 1 then name0 @ '' '' @ str_int page else name0);
          sanitized = lower (replace name CHR '' '' []);
          email = (if has_site then ''contact@'' @ lower base @ lower industry @ ''.com''
                   else sanitized @ ''@gmail.com'');
          socials0 = [];
          (r1, g4) = rng_random E g3;
          socials1 = (if r1 > to_double (3 / 10)
             then socials0 @ [(''linkedin'', PStr (''https://linkedin.com/company/'' @ sanitized))]
             else socials0);
          (r2, g5) = rng_random E g4;
          socials2 = (if r2 > to_double (6 / 10)
             then socials1 @ [(''twitter'', PStr (''https://twitter.com/'' @ sanitized))]
             else socials1);
          (r3, g6) = rng_random E g5;
          socials = (if r3 > to_double (6 / 10)
             then socials2 @ [(''facebook'', PStr (''https://facebook.com/'' @ sanitized))]
             else socials2);
          source_url = ''https://www.google.com/search?q='' @ replace name CHR '' '' ''+''
             @ ''+'' @ replace location CHR '' '' ''+'';
          (x, g7) = uniform E (to_double (35 / 10)) (to_double (49 / 10)) g6;
          rating = round1 x;
          (review_count, g8) = randint E 10 500 g7;
          (ph1, g9) = randint E 100 999 g8;
          (ph2, g10) = randint E 1000 9999 g9
      in (\<lparr> p_id = ''biz_'' @ str_int (py_hash E name),
            p_name = name,
            p_industry = PStr industry,
            p_location = PStr location,
            p_website = (if has_site then PStr (''www.'' @ lower base @ lower industry @ ''.com'')
                         else PNone),
            p_phone = PStr (''(555) '' @ str_int ph1 @ ''-'' @ str_int ph2),
            p_email = PStr email,
            p_social_media = PDict socials,
            p_source_url = PStr source_url,
            p_rating = PFloat rating,
            p_review_count = PInt review_count \<rparr>, g10))"

fun mock_loop ::
  "('g, 'm) env \<Rightarrow> string \<Rightarrow> string \<Rightarrow> int \<Rightarrow> nat \<Rightarrow> 'g \<Rightarrow> BusinessProfile list
     \<Rightarrow> BusinessProfile list \<times> 'g" where
  "mock_loop E industry location page 0 g results = (results, g)"
| "mock_loop E industry location page (Suc n) g results =
     (let (b, g') = mock_lead E industry location page g
      in mock_loop E industry location page n g' (results @ [b]))"

definition mock_scout_service ::
  "('g, 'm) env \<Rightarrow> string \<Rightarrow> string \<Rightarrow> int \<Rightarrow> ('g, 'm) world
     \<Rightarrow> BusinessProfile list \<times> ('g, 'm) world" where
  "mock_scout_service E industry location page w =
     (let w1 = sleep 1 w;
          g0 = rng_seed E (industry @ location @ str_int page);
          (results, g) = mock_loop E industry location page 10 g0 []
      in (results, w1\<lparr>rng_state := g\<rparr>))"

subsection \<open>The model-backed variant\<close>

text \<open>A triple-quoted f-string of main.py: a newline, the lines at the indentation of the
  function body, and the indentation before the closing quotes.\<close>

definition prompt_text :: "string list \<Rightarrow> string" where
  "prompt_text ls = CHR 0x0A # concat (map (\<lambda>l. ''    '' @ l @ [CHR 0x0A]) ls) @ ''    ''"

definition scout_prompt :: "string \<Rightarrow> string \<Rightarrow> int \<Rightarrow> string" where
  "scout_prompt industry location page = prompt_text
     [''You are a business intelligence agent.'',
      ''Task: List 10 REAL existing businesses for the industry '' @ [CHR 0x27] @ industry
        @ [CHR 0x27] @ '' in '' @ [CHR 0x27] @ location @ [CHR 0x27]
        @ '' that likely DO NOT have a website or have a low digital presence.'',
      ''This is for a CRM demo. If exact real data is unavailable, generate highly plausible realistic examples.'',
      [],
      ''CRITERIA:'',
      ''1. Prioritize businesses without a website.'',
      ''2. Include their estimated Google Maps rating and review count.'',
      [],
      ''Page '' @ str_int page @ '' of results.'',
      [],
      ''Return a JSON array of objects with these exact keys:'',
      ''- name (Business Name)'',
      ''- industry (The industry)'',
      ''- location (City, State)'',
      ''- website (URL or null)'',
      ''- phone (Phone number)'',
      ''- email (Public contact email or null)'',
      ''- rating (Float, e.g. 4.5)'',
      ''- review_count (Integer)'',
      [],
      ''JSON ONLY. No markdown formatting.'']"

text \<open>\<open>d.get(key, default)\<close> on a dict.\<close>

definition dict_get :: "(string \<times> pyval) list \<Rightarrow> string \<Rightarrow> pyval \<Rightarrow> pyval" where
  "dict_get kvs k d = (case map_of kvs k of None \<Rightarrow> d | Some v \<Rightarrow> v)"

text \<open>What \<open>for item in data\<close> runs over: the elements of a list, the keys of a dict, the
  characters of a string; any other JSON value is not iterable.\<close>

definition iterate :: "pyval \<Rightarrow> exn + pyval list" where
  "iterate data =
     (case data of
        PList xs \<Rightarrow> Inr xs
      | PDict kvs \<Rightarrow> Inr (map (\<lambda>kv. PStr (fst kv)) kvs)
      | PStr s \<Rightarrow> Inr (map (\<lambda>c. PStr [c]) s)
      | _ \<Rightarrow> Inl (TypeError ''object is not iterable''))"

text \<open>The body of \<open>for item in data\<close>. \<open>item.get\<close> raises unless the item is a dict,
  \<open>.encode()\<close> and \<open>.replace()\<close> raise unless the name is a string.\<close>

definition process_item ::
  "('g, 'm) env \<Rightarrow> string \<Rightarrow> string \<Rightarrow> pyval \<Rightarrow> exn + BusinessProfile" where
  "process_item E industry location item =
     (case item of
        PDict kvs \<Rightarrow>
          (case dict_get kvs ''name'' (PStr []) of
             PStr hashed \<Rightarrow>
               (let item_id = ''biz_'' @ take 10 (hexdigest (md5 E (encode hashed)))
                in case dict_get kvs ''name'' (PStr ''Unknown'') of
                     PStr name \<Rightarrow>
                       (let source_url = ''https://www.google.com/search?q=''
                              @ replace name CHR '' '' ''+'' @ ''+''
                              @ replace location CHR '' '' ''+'';
                            sanitized = lower (replace name CHR '' '' []);
                            socials =
                              [(''linkedin'', PStr (''https://linkedin.com/company/'' @ sanitized)),
                               (''twitter'', PStr (''https://twitter.com/'' @ sanitized))]
                        in Inr \<lparr> p_id = item_id,
                                 p_name = name,
                                 p_industry = dict_get kvs ''industry'' (PStr industry),
                                 p_location = dict_get kvs ''location'' (PStr location),
                                 p_website = dict_get kvs ''website'' PNone,
                                 p_phone = dict_get kvs ''phone'' (PStr ''N/A''),
                                 p_email = dict_get kvs ''email'' PNone,
                                 p_social_media = PDict socials,
                                 p_source_url = PStr source_url,
                                 p_rating = dict_get kvs ''rating'' PNone,
                                 p_review_count = dict_get kvs ''review_count'' PNone \<rparr>)
                   | _ \<Rightarrow> Inl (AttributeError ''object has no attribute replace''))
           | _ \<Rightarrow> Inl (AttributeError ''object has no attribute encode''))
      | _ \<Rightarrow> Inl (AttributeError ''object has no attribute get''))"

fun process_items ::
  "('g, 'm) env \<Rightarrow> string \<Rightarrow> string \<Rightarrow> pyval list \<Rightarrow> BusinessProfile list
     \<Rightarrow> exn + BusinessProfile list" where
  "process_items E industry location [] results = Inr results"
| "process_items E industry location (item # items) results =
     (case process_item E industry location item of
        Inl e \<Rightarrow> Inl e
      | Inr b \<Rightarrow> process_items E industry location items (results @ [b]))"

text \<open>The \<open>try\<close> block: the call to the client, \<open>json.loads\<close>, the loop over the items. The
  first exception ends it, and the results built so far are lost.\<close>

definition scout_try ::
  "('g, 'm) env \<Rightarrow> (string \<Rightarrow> 'm \<Rightarrow> (exn + string) \<times> 'm) \<Rightarrow> string \<Rightarrow> string \<Rightarrow> int
     \<Rightarrow> ('g, 'm) world \<Rightarrow> (exn + BusinessProfile list) \<times> ('g, 'm) world" where
  "scout_try E generate_content industry location page w =
     (let (response, m') = generate_content (scout_prompt industry location page) (client_state w);
          w1 = w\<lparr>client_state := m', calls := calls w + 1\<rparr>
      in case response of
           Inl e \<Rightarrow> (Inl e, w1)
         | Inr text \<Rightarrow>
             (case json_loads E text of
                Inl e \<Rightarrow> (Inl e, w1)
              | Inr data \<Rightarrow>
                  (case iterate data of
                     Inl e \<Rightarrow> (Inl e, w1)
                   | Inr items \<Rightarrow> (process_items E industry location items [], w1))))"

definition ai_scout_service ::
  "('g, 'm) env \<Rightarrow> string \<Rightarrow> string \<Rightarrow> int \<Rightarrow> ('g, 'm) world
     \<Rightarrow> BusinessProfile list \<times> ('g, 'm) world" where
  "ai_scout_service E industry location page w =
     (case model E of
        None \<Rightarrow> mock_scout_service E industry location page w
      | Some generate_content \<Rightarrow>
          (case scout_try E generate_content industry location page w of
             (Inr results, w') \<Rightarrow> (results, w')
           | (Inl e, w') \<Rightarrow> mock_scout_service E industry location page w'))"

text \<open>The handler of \<open>POST /api/scout\<close>. The framework's validation of the returned list
  against \<open>List[BusinessProfile]\<close> is outside the model.\<close>

definition scout ::
  "('g, 'm) env \<Rightarrow> ScoutRequest \<Rightarrow> ('g, 'm) world \<Rightarrow> BusinessProfile list \<times> ('g, 'm) world" where
  "scout E request w =
     ai_scout_service E (sr_industry request) (sr_location request) (sr_page request) w"

section \<open>Audit\<close>

record AnalyzeRequest =
  ar_business_name :: string
  ar_industry :: string
  ar_location :: string
  ar_website :: "string option"

text \<open>\<open>str(e)\<close>: the message of an exception.\<close>

fun str_exn :: "exn \<Rightarrow> string" where
  "str_exn (ModelError s) = s"
| "str_exn (JSONDecodeError s) = s"
| "str_exn (AttributeError s) = s"
| "str_exn (TypeError s) = s"
| "str_exn (ValueError s) = s"

text \<open>\<open>data.website\<close> is true when it is neither \<open>None\<close> nor the empty string.\<close>

definition website_status :: "AnalyzeRequest \<Rightarrow> string" where
  "website_status data =
     (case ar_website data of
        None \<Rightarrow> ''They currently DO NOT have a website.''
      | Some site \<Rightarrow>
          (if site = [] then ''They currently DO NOT have a website.''
           else ''They currently have a website: '' @ site))"

definition audit_prompt :: "AnalyzeRequest \<Rightarrow> string" where
  "audit_prompt data = prompt_text
     [''Act as a Digital Marketing Consultant.'',
      ''Target: '' @ ar_business_name data @ '' ('' @ ar_industry data @ '') in ''
        @ ar_location data @ ''.'',
      ''Status: '' @ website_status data,
      [],
      ''1. Audit:'',
      ''- Score (0-100). If no website, max 30.'',
      ''- 3 Pain Points (concise).'',
      ''- 3 Improvements we can offer.'',
      [],
      ''2. Outreach:'',
      ''- Write a short, punchy cold email.'',
      ''- Subject line included.'',
      [],
      ''Return JSON:'',
      ''{'',
      ''    '' @ [CHR 0x22] @ ''audit_score'' @ [CHR 0x22] @ '': int,'',
      ''    '' @ [CHR 0x22] @ ''pain_points'' @ [CHR 0x22] @ '': [str],'',
      ''    '' @ [CHR 0x22] @ ''improvements'' @ [CHR 0x22] @ '': [str],'',
      ''    '' @ [CHR 0x22] @ ''outreach_message'' @ [CHR 0x22] @ '': str'',
      ''}'']"

definition no_model_result :: pyval where
  "no_model_result = PDict
     [(''audit_score'', PInt 45),
      (''pain_points'', PList [PStr ''No API Key Detected'', PStr ''Cannot analyze real data'',
         PStr ''Please set GEMINI_API_KEY'']),
      (''improvements'', PList [PStr ''Add API Key to backend'', PStr ''Restart server'']),
      (''outreach_message'', PStr ''System Error: Please configure the AI backend.'')]"

definition rate_limit_result :: pyval where
  "rate_limit_result = PDict
     [(''audit_score'', PInt 0),
      (''pain_points'', PList [PStr ''Rate Limit Hit'']),
      (''improvements'', PList [PStr ''Wait 60 seconds'', PStr ''Try again'']),
      (''outreach_message'',
         PStr ''Google Gemini API Rate Limit Exceeded. Please wait a minute and try again.'')]"

definition generic_error_result :: pyval where
  "generic_error_result = PDict
     [(''audit_score'', PInt 0),
      (''pain_points'', PList [PStr ''AI Error'']),
      (''improvements'', PList [PStr ''Check console logs'']),
      (''outreach_message'', PStr ''Error generating message.'')]"

definition max_retries :: nat where
  "max_retries = 3"

definition retry_delay :: rat where
  "retry_delay = 60"

text \<open>The test of the \<open>except\<close> clause on the message of the exception.\<close>

definition rate_limited :: "exn \<Rightarrow> bool" where
  "rate_limited e \<longleftrightarrow> contains ''429'' (str_exn e) \<or> contains ''Quota exceeded'' (str_exn e)"

text \<open>The body of the \<open>try\<close> of one attempt: the call to the client, then \<open>json.loads\<close> on the
  text of the response.\<close>

definition audit_try ::
  "('g, 'm) env \<Rightarrow> (string \<Rightarrow> 'm \<Rightarrow> (exn + string) \<times> 'm) \<Rightarrow> string \<Rightarrow> ('g, 'm) world
     \<Rightarrow> (exn + pyval) \<times> ('g, 'm) world" where
  "audit_try E generate_content prompt w =
     (let (response, m') = generate_content prompt (client_state w);
          w1 = w\<lparr>client_state := m', calls := calls w + 1\<rparr>
      in case response of
           Inl e \<Rightarrow> (Inl e, w1)
         | Inr text \<Rightarrow> (json_loads E text, w1))"

text \<open>\<open>for attempt in range(max_retries)\<close>, over the attempts still to run. A loop that ran
  out would fall off the end of the function, which returns \<open>None\<close>.\<close>

fun audit_loop ::
  "('g, 'm) env \<Rightarrow> (string \<Rightarrow> 'm \<Rightarrow> (exn + string) \<times> 'm) \<Rightarrow> string \<Rightarrow> nat list
     \<Rightarrow> ('g, 'm) world \<Rightarrow> pyval \<times> ('g, 'm) world" where
  "audit_loop E generate_content prompt [] w = (PNone, w)"
| "audit_loop E generate_content prompt (attempt # rest) w =
     (case audit_try E generate_content prompt w of
        (Inr result, w1) \<Rightarrow> (result, w1)
      | (Inl e, w1) \<Rightarrow>
          (if rate_limited e then
             (if attempt < max_retries - 1
              then audit_loop E generate_content prompt rest (sleep retry_delay w1)
              else (rate_limit_result, w1))
           else (generic_error_result, w1)))"

definition generate_audit_and_message ::
  "('g, 'm) env \<Rightarrow> AnalyzeRequest \<Rightarrow> ('g, 'm) world \<Rightarrow> pyval \<times> ('g, 'm) world" where
  "generate_audit_and_message E data w =
     (case model E of
        None \<Rightarrow> (no_model_result, w)
      | Some generate_content \<Rightarrow>
          audit_loop E generate_content (audit_prompt data) [0..<max_retries] w)"

text \<open>The handler of \<open>POST /api/analyze\<close>; the framework's validation of the result against
  \<open>AnalysisResult\<close> is outside the model.\<close>

definition analyze ::
  "('g, 'm) env \<Rightarrow> AnalyzeRequest \<Rightarrow> ('g, 'm) world \<Rightarrow> pyval \<times> ('g, 'm) world" where
  "analyze E request w = generate_audit_and_message E request w"

text \<open>\<open>r[key]\<close> on a result, when the result is a dict that has the key.\<close>

definition dict_field :: "pyval \<Rightarrow> string \<Rightarrow> pyval option" where
  "dict_field r k = (case r of PDict kvs \<Rightarrow> map_of kvs k | _ \<Rightarrow> None)"

definition audit_score :: "pyval \<Rightarrow> pyval option" where
  "audit_score r = dict_field r ''audit_score''"

text \<open>An \<open>audit_score\<close> that is an integer from 0 to 100.\<close>

definition score_in_range :: "pyval \<Rightarrow> bool" where
  "score_in_range r = (case audit_score r of Some (PInt n) \<Rightarrow> 0 \<le> n \<and> n \<le> 100 | _ \<Rightarrow> False)"

section \<open>Test doubles for the library\<close>

text \<open>A client that plays a script: each call returns the next scripted outcome.\<close>

definition fake_client ::
  "string \<Rightarrow> (exn + string) list \<Rightarrow> (exn + string) \<times> (exn + string) list" where
  "fake_client prompt script =
     (case script of
        [] \<Rightarrow> (Inl (ModelError ''no response scripted''), [])
      | r # rs \<Rightarrow> (r, rs))"

text \<open>A JSON string literal without escapes.\<close>

definition dq :: "string \<Rightarrow> string" where
  "dq s = [CHR 0x22] @ s @ [CHR 0x22]"

text \<open>The text
  \<open>{"audit_score": 150, "pain_points": [], "improvements": [], "outreach_message": ""}\<close>.\<close>

definition score_150_text :: string where
  "score_150_text = ''{'' @ dq ''audit_score'' @ '': 150, '' @ dq ''pain_points'' @ '': [], ''
     @ dq ''improvements'' @ '': [], '' @ dq ''outreach_message'' @ '': '' @ dq [] @ ''}''"

text \<open>The text \<open>[{}, {"name": "Unknown"}]\<close>.\<close>

definition two_items_text :: string where
  "two_items_text = ''[{}, {'' @ dq ''name'' @ '': '' @ dq ''Unknown'' @ ''}]''"

text \<open>The text \<open>[{"name": "A"}, 7]\<close>.\<close>

definition mixed_items_text :: string where
  "mixed_items_text = ''[{'' @ dq ''name'' @ '': '' @ dq ''A'' @ ''}, 7]''"

text \<open>\<open>json.loads\<close> on the few texts the scripts use.\<close>

definition fake_json_loads :: "string \<Rightarrow> exn + pyval" where
  "fake_json_loads text =
     (if text = ''[]'' then Inr (PList [])
      else if text = ''[{}]'' then Inr (PList [PDict []])
      else if text = ''[7]'' then Inr (PList [PInt 7])
      else if text = ''null'' then Inr PNone
      else if text = mixed_items_text then
        Inr (PList [PDict [(''name'', PStr ''A'')], PInt 7])
      else if text = two_items_text then
        Inr (PList [PDict [], PDict [(''name'', PStr ''Unknown'')]])
      else if text = score_150_text then
        Inr (PDict [(''audit_score'', PInt 150), (''pain_points'', PList []),
                    (''improvements'', PList []), (''outreach_message'', PStr [])])
      else Inl (JSONDecodeError ''Expecting value: line 1 column 1 (char 0)''))"

text \<open>The MD5 digests of the empty byte string and of \<open>Unknown\<close>, as \<open>hashlib.md5\<close> gives
  them; a stand-in digest for every other input.\<close>

definition fake_md5 :: "8 word list \<Rightarrow> 128 word" where
  "fake_md5 bs =
     (if bs = [] then 0xd41d8cd98f00b204e9800998ecf8427e
      else if bs = encode ''Unknown'' then 0x88183b946cc5f0e8c96b2e66e1c74a7e
      else of_nat (length bs) + 4)"

text \<open>A small generator that honours the contract and a stand-in hash.\<close>

definition fake_env ::
  "(string \<Rightarrow> (exn + string) list \<Rightarrow> (exn + string) \<times> (exn + string) list) option
     \<Rightarrow> (nat, (exn + string) list) env" where
  "fake_env client =
     \<lparr> rng_seed = length,
       rng_random = (\<lambda>g. (of_nat ((7 * g + 3) mod 16) / 16, g + 2)),
       rng_randbelow = (\<lambda>n g. ((g * g + g + 3) mod n, Suc g)),
       py_hash = (\<lambda>s. int (length s) - 40),
       md5 = fake_md5,
       json_loads = fake_json_loads,
       model = client \<rparr>"

definition fake_world :: "(exn + string) list \<Rightarrow> (nat, (exn + string) list) world" where
  "fake_world script = \<lparr> rng_state = 0, client_state = script, calls = 0, slept = [] \<rparr>"

section \<open>Properties of the email verifier\<close>

lemma hex_value_hex_char: "d < 16 \<Longrightarrow> hex_value (hex_char d) = Some d"
  by (auto simp: hex_value_def hex_char_def Let_def)

lemma parse_hex_append:
  "parse_hex acc (xs @ ys) = (case parse_hex acc xs of None \<Rightarrow> None | Some a \<Rightarrow> parse_hex a ys)"
  by (induction xs arbitrary: acc) (auto split: option.splits)

lemma parse_hex_hex_digits: "parse_hex acc (hex_digits n v) = Some (acc * 16 ^ n + v mod 16 ^ n)"
proof (induction n arbitrary: v acc)
  case 0
  then show ?case by simp
next
  case (Suc n)
  have "((acc * 16 ^ n + v div 16 mod 16 ^ n) * 16 + v mod 16) = acc * 16 ^ Suc n + v mod 16 ^ Suc n"
    by (simp add: algebra_simps mod_mult2_eq)
  then show ?case
    using Suc by (simp add: parse_hex_append hex_value_hex_char mult.commute)
qed

lemma hex_digits_length: "length (hex_digits n v) = n"
  by (induction n arbitrary: v) auto

lemma int16_hexdigest: "int16 (hexdigest d) = Inr (uint d)"
proof -
  have "unat d < 2 ^ 128" using unsigned_less [of d] by simp
  then have "unat d mod 16 ^ 32 = unat d" by simp
  moreover have "hex_digits 32 (unat d) \<noteq> []"
    using hex_digits_length [of 32 "unat d"] by auto
  ultimately show ?thesis
    by (simp add: int16_def hexdigest_def parse_hex_hex_digits)
qed

lemma isspace_lower_char: "isspace (lower_char c) = isspace c"
  by (auto simp: isspace_def lower_char_def Let_def)

lemma lower_append: "lower (xs @ ys) = lower xs @ lower ys"
  by (simp add: lower_def)

lemma strip_padding:
  assumes "\<forall>c\<in>set ws1. isspace c" and "\<forall>c\<in>set ws2. isspace c"
  shows "strip (ws1 @ s @ ws2) = strip s"
proof -
  have a: "dropWhile isspace (ws1 @ s @ ws2) = dropWhile isspace (s @ ws2)"
    using assms(1) by (simp add: dropWhile_append2)
  show ?thesis
  proof (cases "\<forall>c\<in>set s. isspace c")
    case True
    then have e: "dropWhile isspace (s @ ws2) = []" "dropWhile isspace s = []"
      using assms(2) by (simp_all add: dropWhile_append2)
    show ?thesis unfolding strip_def a e by simp
  next
    case False
    then obtain x where x: "x \<in> set s" "\<not> isspace x" by blast
    then have b: "dropWhile isspace (s @ ws2) = dropWhile isspace s @ ws2"
      by (rule dropWhile_append1)
    have "dropWhile isspace (rev ws2 @ rev (dropWhile isspace s))
            = dropWhile isspace (rev (dropWhile isspace s))"
      by (rule dropWhile_append2) (use assms(2) in auto)
    then show ?thesis by (simp add: strip_def a b)
  qed
qed


text \<open>
  C9: \<open>verify_email\<close> lower-cases and strips the address, and answers \<open>invalid\<close> exactly when the
  MD5 digest of the normalised address, read as a number, is divisible by 5, \<open>valid\<close> otherwise.
  The verdict does not depend on the state the call starts from, and an address that differs
  only in case or in surrounding whitespace gets the same verdict.
\<close>

theorem verify_email_verdict:
  "fst (verify_email E r w) =
     Inr (PDict [(''status'', PStr (if uint (md5 E (encode (strip (lower (ve_email r))))) mod 5 = 0
                                      then ''invalid'' else ''valid''))])
   \<and> fst (verify_email E r w') = fst (verify_email E r w)
   \<and> ((\<forall>c\<in>set ws1. isspace c) \<and> (\<forall>c\<in>set ws2. isspace c) \<and> lower e' = lower (ve_email r)
        \<longrightarrow> fst (verify_email E \<lparr>ve_email = ws1 @ e' @ ws2\<rparr> w') = fst (verify_email E r w))"
proof -
  have verdict: "fst (verify_email E r w) =
     Inr (PDict [(''status'', PStr (if uint (md5 E (encode (strip (lower (ve_email r))))) mod 5 = 0
                                      then ''invalid'' else ''valid''))])" for r and w :: "('a, 'b) world"
    by (simp add: verify_email_def Let_def int16_hexdigest)
  have pad: "strip (lower (ws1 @ e' @ ws2)) = strip (lower (ve_email r))"
    if "\<forall>c\<in>set ws1. isspace c" "\<forall>c\<in>set ws2. isspace c" "lower e' = lower (ve_email r)"
  proof -
    have "\<forall>c\<in>set (lower ws1). isspace c" "\<forall>c\<in>set (lower ws2). isspace c"
      using that(1,2) by (auto simp: lower_def isspace_lower_char)
    then have "strip (lower ws1 @ lower e' @ lower ws2) = strip (lower e')"
      by (rule strip_padding)
    then show ?thesis using that(3) by (simp add: lower_append)
  qed
  show ?thesis
    using pad by (simp add: verdict)
qed

theorem verify_email_verdict_witness:
  "list_all isspace '' '' \<and> list_all isspace [CHR 0x09, CHR 0x0A]
   \<and> lower ''BOB@Example.COM'' = lower ''bob@example.com''
   \<and> fst (verify_email (fake_env None) \<lparr>ve_email = '' '' @ ''BOB@Example.COM'' @ [CHR 0x09, CHR 0x0A]\<rparr> (fake_world []))
       = fst (verify_email (fake_env None) \<lparr>ve_email = ''bob@example.com''\<rparr> (fake_world []))
   \<and> fst (verify_email (fake_env None) \<lparr>ve_email = ''bob@example.com''\<rparr> (fake_world []))
       = Inr (PDict [(''status'', PStr ''valid'')])"
proof -
  have h: "(\<forall>c\<in>set '' ''. isspace c) \<and> (\<forall>c\<in>set [CHR 0x09, CHR 0x0A]. isspace c)
   \<and> lower ''BOB@Example.COM'' = lower (ve_email \<lparr>ve_email = ''bob@example.com''\<rparr>)"
    by code_simp
  have v: "uint (md5 (fake_env None) (encode (strip (lower ''bob@example.com'')))) mod 5 \<noteq> 0"
    by code_simp
  show ?thesis
    using h v verify_email_verdict [of "fake_env None" "\<lparr>ve_email = ''bob@example.com''\<rparr>" "fake_world []"
        "fake_world []" "'' ''" "[CHR 0x09, CHR 0x0A]" "''BOB@Example.COM''"]
    by (simp add: list_all_iff)
qed

section \<open>Properties of doubles\<close>

lemma round_half_even_bounds: "\<lfloor>x\<rfloor> \<le> round_half_even x \<and> round_half_even x \<le> \<lceil>x\<rceil>"
  by (auto simp: round_half_even_def Let_def ceiling_altdef)

lemma round_half_even_of_int: "round_half_even (of_int n) = n"
  by (simp add: round_half_even_def)

lemma round_half_even_mono:
  assumes "x \<le> y"
  shows "round_half_even x \<le> round_half_even y"
proof (cases "\<lfloor>x\<rfloor> = \<lfloor>y\<rfloor>")
  case True
  then have "x - of_int \<lfloor>x\<rfloor> \<le> y - of_int \<lfloor>y\<rfloor>"
    using assms by simp
  then show ?thesis
    using True by (auto simp: round_half_even_def Let_def)
next
  case False
  then have "\<lfloor>x\<rfloor> < \<lfloor>y\<rfloor>"
    using floor_mono [OF assms] by linarith
  then have "\<lceil>x\<rceil> \<le> \<lfloor>y\<rfloor>"
    by (simp add: ceiling_altdef)
  then show ?thesis
    using round_half_even_bounds [of x] round_half_even_bounds [of y] by linarith
qed

lemma exponent_bracket:
  assumes "0 < x"
  shows "2 powi exponent x \<le> x \<and> x < 2 powi (exponent x + 1)"
proof (cases "1 \<le> x")
  case True
  then have p: "0 < \<lfloor>x\<rfloor>"
    by simp
  define k where "k = nat (bitlen \<lfloor>x\<rfloor> - 1)"
  have b1: "1 \<le> bitlen \<lfloor>x\<rfloor>"
    using p bitlen_eq_zero_iff [of "\<lfloor>x\<rfloor>"] bitlen_nonneg [of "\<lfloor>x\<rfloor>"] by linarith
  then have e: "exponent x = int k" and s: "nat (bitlen \<lfloor>x\<rfloor>) = Suc k"
    using True by (simp_all add: exponent_def k_def)
  have "2 ^ k \<le> \<lfloor>x\<rfloor>" and "\<lfloor>x\<rfloor> < 2 ^ Suc k"
    using bitlen_bounds [OF p] by (simp_all add: k_def [symmetric] s)
  then have "(2::rat) ^ k \<le> x" and "x < 2 ^ Suc k"
    by (simp_all add: le_floor_iff floor_less_iff)
  then show ?thesis
    by (simp add: e power_int_add)
next
  case False
  define c where "c = \<lceil>1 / x\<rceil> - 1"
  have "1 < 1 / x"
    using False assms by simp
  then have p: "0 < c"
    by (simp add: c_def less_ceiling_iff)
  define k where "k = nat (bitlen c - 1)"
  have b1: "1 \<le> bitlen c"
    using p bitlen_eq_zero_iff [of c] bitlen_nonneg [of c] by linarith
  then have e: "exponent x = - int (Suc k)" and s: "nat (bitlen c) = Suc k"
    using False by (simp_all add: exponent_def k_def c_def)
  have "2 ^ k \<le> c" and "c < 2 ^ Suc k"
    using bitlen_bounds [OF p] by (simp_all add: k_def [symmetric] s)
  then have "2 ^ k < \<lceil>1 / x\<rceil>" and "\<lceil>1 / x\<rceil> \<le> 2 ^ Suc k"
    by (simp_all add: c_def)
  then have "(2::rat) ^ k < 1 / x" and "1 / x \<le> 2 ^ Suc k"
    by (simp_all add: less_ceiling_iff ceiling_le_iff)
  then have "x < 1 / 2 ^ k" and "1 / 2 ^ Suc k \<le> x"
    using assms by (simp_all add: field_simps)
  moreover have "(2::rat) powi (- int (Suc k)) = 1 / 2 ^ Suc k"
    by (simp only: power_int_minus_divide power_int_of_nat)
  moreover have "- int (Suc k) + 1 = - int k"
    by simp
  then have "(2::rat) powi (- int (Suc k) + 1) = 1 / 2 ^ k"
    by (simp only: power_int_minus_divide power_int_of_nat)
  ultimately show ?thesis
    by (simp only: e)
qed


lemma two_powi_less_imp_less:
  assumes "(2::rat) powi m < 2 powi n"
  shows "m < n"
proof (rule ccontr)
  assume "\<not> m < n"
  then have "(2::rat) powi n \<le> 2 powi m"
    by (intro power_int_increasing) simp_all
  then show False
    using assms by simp
qed

lemma exponent_unique:
  assumes "0 < x" and "2 powi e \<le> x" and "x < 2 powi (e + 1)"
  shows "exponent x = e"
proof -
  have "(2::rat) powi e < 2 powi (exponent x + 1)"
    using assms(2) exponent_bracket [OF assms(1)] by linarith
  then have "e < exponent x + 1"
    by (rule two_powi_less_imp_less)
  moreover have "(2::rat) powi exponent x < 2 powi (e + 1)"
    using assms(3) exponent_bracket [OF assms(1)] by linarith
  then have "exponent x < e + 1"
    by (rule two_powi_less_imp_less)
  ultimately show ?thesis
    by simp
qed

lemma exponent_mono:
  assumes "0 < x" and "x \<le> y"
  shows "exponent x \<le> exponent y"
proof -
  have "0 < y"
    using assms by simp
  then have "(2::rat) powi exponent x < 2 powi (exponent y + 1)"
    using exponent_bracket [OF assms(1)] exponent_bracket [of y] assms(2) by linarith
  then have "exponent x < exponent y + 1"
    by (rule two_powi_less_imp_less)
  then show ?thesis
    by simp
qed

lemma to_double_pos:
  assumes "0 < x"
  shows "to_double x = of_int (round_half_even (x / 2 powi (max (exponent x) (- 1022) - 52)))
           * 2 powi (max (exponent x) (- 1022) - 52)"
  using assms by (simp add: to_double_def Let_def)

lemma to_double_eq:
  assumes "0 < x" and "2 powi e \<le> x" and "x < 2 powi (e + 1)" and "- 1022 \<le> e"
  shows "to_double x = of_int (round_half_even (x / 2 powi (e - 52))) * 2 powi (e - 52)"
proof -
  have "exponent x = e"
    using assms(1-3) by (rule exponent_unique)
  then have "max (exponent x) (- 1022) = e"
    using assms(4) by simp
  then show ?thesis
    by (simp only: to_double_pos [OF assms(1)])
qed

lemma to_double_nonneg:
  assumes "0 \<le> x"
  shows "0 \<le> to_double x"
proof (cases "x = 0")
  case True
  then show ?thesis by (simp add: to_double_def)
next
  case False
  then have p: "0 < x"
    using assms by simp
  let ?q = "(2::rat) powi (max (exponent x) (- 1022) - 52)"
  have q: "0 < ?q"
    by (simp add: zero_less_power_int)
  then have "0 \<le> x / ?q"
    using p by simp
  then have "0 \<le> round_half_even (x / ?q)"
    using round_half_even_mono [of 0 "x / ?q"] round_half_even_of_int [of 0] by simp
  then show ?thesis
    using q by (simp add: to_double_pos [OF p])
qed

lemma to_double_upper:
  assumes "0 < x"
  shows "to_double x \<le> 2 powi (max (exponent x) (- 1022) + 1)"
proof -
  let ?E = "max (exponent x) (- 1022)"
  let ?q = "(2::rat) powi (?E - 52)"
  have q: "0 < ?q"
    by (simp add: zero_less_power_int)
  have s: "(2::rat) powi (?E + 1) = 2 ^ 53 * ?q"
  proof -
    have "(2::rat) powi (53 + (?E - 52)) = 2 powi 53 * ?q"
      by (rule power_int_add) simp
    then show ?thesis
      by (simp add: algebra_simps)
  qed
  have "x < 2 powi (exponent x + 1)"
    using exponent_bracket [OF assms] by simp
  also have "\<dots> \<le> 2 powi (?E + 1)"
    by (intro power_int_increasing) simp_all
  finally have "x < 2 ^ 53 * ?q"
    by (simp only: s)
  then have "x / ?q < 2 ^ 53"
    using q by (simp only: pos_divide_less_eq)
  then have "x / ?q \<le> 2 ^ 53"
    by (rule less_imp_le)
  then have "round_half_even (x / ?q) \<le> round_half_even (of_int (2 ^ 53))"
    by (intro round_half_even_mono) simp
  then have "round_half_even (x / ?q) \<le> 2 ^ 53"
    by (simp only: round_half_even_of_int)
  then have "(of_int (round_half_even (x / ?q)) :: rat) \<le> 2 ^ 53"
    by (metis of_int_le_iff of_int_numeral of_int_power)
  then have "of_int (round_half_even (x / ?q)) * ?q \<le> 2 ^ 53 * ?q"
    using q by (intro mult_right_mono) simp_all
  then show ?thesis
    by (simp only: to_double_pos [OF assms] s)
qed

lemma to_double_lower:
  assumes "0 < x" and "- 1022 \<le> exponent x"
  shows "2 powi exponent x \<le> to_double x"
proof -
  let ?q = "(2::rat) powi (exponent x - 52)"
  have m: "max (exponent x) (- 1022) = exponent x"
    using assms(2) by simp
  have q: "0 < ?q"
    by (simp add: zero_less_power_int)
  have s: "(2::rat) powi exponent x = 2 ^ 52 * ?q"
  proof -
    have "(2::rat) powi (52 + (exponent x - 52)) = 2 powi 52 * ?q"
      by (rule power_int_add) simp
    then show ?thesis
      by simp
  qed
  have "2 ^ 52 * ?q \<le> x"
    using exponent_bracket [OF assms(1)] by (simp only: s)
  then have "2 ^ 52 \<le> x / ?q"
    using q by (simp only: pos_le_divide_eq)
  then have "round_half_even (of_int (2 ^ 52)) \<le> round_half_even (x / ?q)"
    by (intro round_half_even_mono) simp
  then have "2 ^ 52 \<le> round_half_even (x / ?q)"
    by (simp only: round_half_even_of_int)
  then have "2 ^ 52 \<le> (of_int (round_half_even (x / ?q)) :: rat)"
    by (metis of_int_le_iff of_int_numeral of_int_power)
  then have "2 ^ 52 * ?q \<le> of_int (round_half_even (x / ?q)) * ?q"
    using q by (intro mult_right_mono) simp_all
  then show ?thesis
    by (simp only: to_double_pos [OF assms(1)] m s)
qed

lemma to_double_mono:
  assumes "0 \<le> x" and "x \<le> y"
  shows "to_double x \<le> to_double y"
proof (cases "x = 0")
  case True
  then show ?thesis
    using to_double_nonneg [of y] assms by (simp add: to_double_def)
next
  case False
  then have px: "0 < x" and py: "0 < y"
    using assms by simp_all
  let ?Ex = "max (exponent x) (- 1022)"
  let ?Ey = "max (exponent y) (- 1022)"
  have le: "?Ex \<le> ?Ey"
    using exponent_mono [OF px assms(2)] by simp
  show ?thesis
  proof (cases "?Ex = ?Ey")
    case True
    let ?q = "(2::rat) powi (?Ey - 52)"
    have q: "0 < ?q"
      by (simp add: zero_less_power_int)
    then have "x / ?q \<le> y / ?q"
      using assms(2) by (simp add: divide_right_mono)
    then have "round_half_even (x / ?q) \<le> round_half_even (y / ?q)"
      by (rule round_half_even_mono)
    then have "(of_int (round_half_even (x / ?q)) :: rat) * ?q \<le> of_int (round_half_even (y / ?q)) * ?q"
      using q by (intro mult_right_mono) simp_all
    then show ?thesis
      by (simp only: to_double_pos [OF px] to_double_pos [OF py] True)
  next
    case False
    then have lt: "?Ex < ?Ey"
      using le by linarith
    then have n: "- 1022 \<le> exponent y" and m: "?Ey = exponent y"
      by linarith+
    have "to_double x \<le> 2 powi (?Ex + 1)"
      by (rule to_double_upper [OF px])
    also have "\<dots> \<le> 2 powi exponent y"
    proof (rule power_int_increasing)
      show "?Ex + 1 \<le> exponent y"
        using lt m by linarith
    qed simp
    also have "\<dots> \<le> to_double y"
      by (rule to_double_lower [OF py n])
    finally show ?thesis .
  qed
qed

lemma round_half_even_frac:
  assumes "0 < b"
  shows "round_half_even (of_int a / of_int b) =
     (if 2 * (a mod b) < b then a div b
      else if b < 2 * (a mod b) then a div b + 1
      else if even (a div b) then a div b else a div b + 1)"
proof -
  have f: "\<lfloor>(of_int a / of_int b :: rat)\<rfloor> = a div b"
    by (simp add: floor_divide_of_int_eq)
  have "(of_int a :: rat) = of_int (a div b) * of_int b + of_int (a mod b)"
    by (metis div_mult_mod_eq of_int_add of_int_mult)
  then have d: "(of_int a / of_int b :: rat) - of_int (a div b) = of_int (a mod b) / of_int b"
    using assms by (simp add: field_simps)
  have lt: "(of_int (a mod b) / of_int b :: rat) < 1 / 2 \<longleftrightarrow> 2 * (a mod b) < b"
  proof -
    have "(of_int (a mod b) / of_int b :: rat) < 1 / 2 \<longleftrightarrow> (of_int (2 * (a mod b)) :: rat) < of_int b"
      using assms by (simp add: field_simps)
    then show ?thesis
      by (simp only: of_int_less_iff)
  qed
  have gt: "1 / 2 < (of_int (a mod b) / of_int b :: rat) \<longleftrightarrow> b < 2 * (a mod b)"
  proof -
    have "1 / 2 < (of_int (a mod b) / of_int b :: rat) \<longleftrightarrow> (of_int b :: rat) < of_int (2 * (a mod b))"
      using assms by (simp add: field_simps)
    then show ?thesis
      by (simp only: of_int_less_iff)
  qed
  show ?thesis
    unfolding round_half_even_def Let_def f d lt gt by simp
qed

lemma round_half_even_numeral:
  "round_half_even (numeral a / numeral b) =
     (if 2 * (numeral a mod numeral b) < (numeral b :: int) then numeral a div numeral b
      else if (numeral b :: int) < 2 * (numeral a mod numeral b) then numeral a div numeral b + 1
      else if even (numeral a div numeral b :: int) then numeral a div numeral b
      else numeral a div numeral b + 1)"
  using round_half_even_frac [of "numeral b" "numeral a"] by simp

lemma round_half_even_numeral_int: "round_half_even (numeral n) = numeral n"
  using round_half_even_of_int [of "numeral n"] by simp

lemmas round_half_even_eval = round_half_even_numeral round_half_even_numeral_int

text \<open>The doubles of the literals \<open>3.5\<close> and \<open>4.9\<close>, and their float difference.\<close>

lemma double_35: "to_double (35 / 10) = 35 / 10"
  by (subst to_double_eq [where e = 1]) (simp_all add: round_half_even_eval)

lemma double_49: "to_double (49 / 10) = 2758454771764429 / 562949953421312"
  by (subst to_double_eq [where e = 2]) (simp_all add: round_half_even_eval)

lemma double_49_fixed:
  "to_double (2758454771764429 / 562949953421312) = 2758454771764429 / 562949953421312"
  by (subst to_double_eq [where e = 2]) (simp_all add: round_half_even_eval)

lemma double_width:
  "float_sub (to_double (49 / 10)) (to_double (35 / 10)) = 788129934789837 / 562949953421312"
proof -
  have "to_double (2758454771764429 / 562949953421312 - 35 / 10)
      = 788129934789837 / 562949953421312"
    by (subst to_double_eq [where e = 0]) (simp_all add: round_half_even_eval)
  then show ?thesis
    by (simp only: float_sub_def double_35 double_49)
qed

lemma double_width_fixed:
  "to_double (788129934789837 / 562949953421312) = 788129934789837 / 562949953421312"
  by (subst to_double_eq [where e = 0]) (simp_all add: round_half_even_eval)

section \<open>Properties of the synthetic scout\<close>

lemma mock_loop_length:
  "length (fst (mock_loop E industry location page n g results)) = length results + n"
  by (induction n arbitrary: g results) (simp_all add: split_beta)

lemma mock_loop_all:
  assumes "\<And>g. P (fst (mock_lead E industry location page g))"
    and "\<forall>b\<in>set results. P b"
  shows "\<forall>b\<in>set (fst (mock_loop E industry location page n g results)). P b"
  using assms(2)
proof (induction n arbitrary: g results)
  case 0
  then show ?case by simp
next
  case (Suc n)
  have "\<forall>b\<in>set (results @ [fst (mock_lead E industry location page g)]). P b"
    using Suc.prems assms(1) by simp
  then have "\<forall>b\<in>set (fst (mock_loop E industry location page n
      (snd (mock_lead E industry location page g))
      (results @ [fst (mock_lead E industry location page g)]))). P b"
    by (rule Suc.IH)
  then show ?case
    by (simp add: split_beta)
qed

lemma mock_results:
  "fst (mock_scout_service E industry location page w) =
     fst (mock_loop E industry location page 10 (rng_seed E (industry @ location @ str_int page)) [])"
  by (simp add: mock_scout_service_def split_beta Let_def)

lemma mock_length: "length (fst (mock_scout_service E industry location page w)) = 10"
  by (simp add: mock_results mock_loop_length)

lemma mock_all:
  assumes "\<And>g. P (fst (mock_lead E industry location page g))"
  shows "\<forall>b\<in>set (fst (mock_scout_service E industry location page w)). P b"
  unfolding mock_results by (rule mock_loop_all) (use assms in simp_all)

lemma randint_bounds:
  assumes "rng_ok E" and "a \<le> b"
  shows "a \<le> fst (randint E a b g) \<and> fst (randint E a b g) \<le> b"
proof -
  have "fst (rng_randbelow E (nat (b + 1 - a)) g) < nat (b + 1 - a)"
    using assms by (simp add: rng_ok_def)
  then show ?thesis
    by (simp add: randint_def split_beta)
qed

lemma uniform_rating_bounds:
  assumes "rng_ok E"
  shows "35 / 10 \<le> fst (uniform E (to_double (35 / 10)) (to_double (49 / 10)) g)
       \<and> fst (uniform E (to_double (35 / 10)) (to_double (49 / 10)) g)
           \<le> 2758454771764429 / 562949953421312"
proof -
  let ?W = "788129934789837 / 562949953421312 :: rat"
  let ?B = "2758454771764429 / 562949953421312 :: rat"
  define u where "u = fst (rng_random E g)"
  have u: "0 \<le> u" "u < 1"
    using assms by (simp_all add: rng_ok_def u_def)
  define m where "m = float_mul ?W u"
  have "0 \<le> ?W * u"
    using u(1) by simp
  moreover have "?W * u \<le> ?W"
    using u by simp
  ultimately have "0 \<le> to_double (?W * u)" and "to_double (?W * u) \<le> to_double ?W"
    by (simp_all only: to_double_nonneg to_double_mono)
  then have m: "0 \<le> m" "m \<le> ?W"
    by (simp_all only: m_def float_mul_def double_width_fixed)
  have "(35 / 10 :: rat) \<le> 35 / 10 + m" and "35 / 10 + m \<le> ?B"
    using m by simp_all
  then have "to_double (35 / 10) \<le> to_double (35 / 10 + m)"
    and "to_double (35 / 10 + m) \<le> to_double ?B"
    by (simp_all only: to_double_mono)
  then have "35 / 10 \<le> float_add (35 / 10) m" and "float_add (35 / 10) m \<le> ?B"
    by (simp_all only: float_add_def double_35 double_49_fixed)
  moreover have "fst (uniform E (to_double (35 / 10)) (to_double (49 / 10)) g)
      = float_add (35 / 10) m"
    by (simp only: uniform_def split_beta Let_def fst_conv double_width)
      (simp only: m_def u_def double_35)
  ultimately show ?thesis
    by (simp only: simp_thms)
qed

lemma round1_rating:
  assumes "35 / 10 \<le> x" and "x \<le> 2758454771764429 / 562949953421312"
  shows "\<exists>d. 35 \<le> d \<and> d \<le> 49 \<and> round1 x = to_double (of_int d / 10)
           \<and> to_double (35 / 10) \<le> round1 x \<and> round1 x \<le> to_double (49 / 10)"
proof -
  define d where "d = round_half_even (x * 10)"
  have "round_half_even 35 \<le> round_half_even (x * 10)"
    using assms(1) by (intro round_half_even_mono) simp
  then have lo: "35 \<le> d"
    by (simp add: d_def round_half_even_eval)
  have "round_half_even (x * 10) \<le> round_half_even (2758454771764429 / 562949953421312 * 10)"
    using assms(2) by (intro round_half_even_mono) simp
  then have hi: "d \<le> 49"
    by (simp add: d_def round_half_even_eval)
  have "(35 / 10 :: rat) \<le> of_int d / 10" and "(of_int d / 10 :: rat) \<le> 49 / 10"
    using lo hi by simp_all
  then have "to_double (35 / 10) \<le> to_double (of_int d / 10)"
    and "to_double (of_int d / 10) \<le> to_double (49 / 10)"
    using lo by (simp_all only: to_double_mono)
  then show ?thesis
    using lo hi by (auto simp: round1_def d_def)
qed

lemma mock_lead_rating:
  assumes "rng_ok E"
  shows "\<exists>r d. p_rating (fst (mock_lead E industry location page g)) = PFloat r
           \<and> 35 \<le> d \<and> d \<le> 49 \<and> r = to_double (of_int d / 10)
           \<and> to_double (35 / 10) \<le> r \<and> r \<le> to_double (49 / 10)"
proof -
  have "\<exists>g'. p_rating (fst (mock_lead E industry location page g))
      = PFloat (round1 (fst (uniform E (to_double (35 / 10)) (to_double (49 / 10)) g')))"
    by (simp add: mock_lead_def split_beta Let_def) blast
  then obtain g' where r: "p_rating (fst (mock_lead E industry location page g))
      = PFloat (round1 (fst (uniform E (to_double (35 / 10)) (to_double (49 / 10)) g')))"
    by blast
  show ?thesis
    using round1_rating [OF uniform_rating_bounds [OF assms, THEN conjunct1]
        uniform_rating_bounds [OF assms, THEN conjunct2], of g'] r
    by auto
qed

lemma mock_lead_review_count:
  assumes "rng_ok E"
  shows "\<exists>n. p_review_count (fst (mock_lead E industry location page g)) = PInt n \<and> 10 \<le> n \<and> n \<le> 500"
  using randint_bounds [OF assms, of 10 500]
  by (simp add: mock_lead_def split_beta Let_def)


lemma fake_rng_ok: "rng_ok (fake_env client)"
proof -
  have "(of_nat (k mod 16) :: rat) < 16" for k :: nat
    by (metis mod_less_divisor of_nat_less_iff of_nat_numeral zero_less_numeral)
  then show ?thesis
    by (simp add: rng_ok_def fake_env_def)
qed

lemma mock_independent:
  "fst (mock_scout_service E industry location page w) =
     fst (mock_scout_service E industry location page w')"
  by (simp add: mock_results)

text \<open>With \<open>random() = 0.25\<close>: \<open>uniform(3.5, 4.9)\<close> is the double 3.8500000000000001, above
  3.85, which \<open>round(x, 1)\<close> takes to the double 3.9.\<close>

lemma quarter_rating:
  assumes "fst (rng_random E g) = 1 / 4"
  shows "fst (uniform E (to_double (35 / 10)) (to_double (49 / 10)) g)
           = 8669429282688205 / 2251799813685248
       \<and> round1 (fst (uniform E (to_double (35 / 10)) (to_double (49 / 10)) g))
           = to_double (39 / 10)"
proof -
  have m: "float_mul (788129934789837 / 562949953421312) (1 / 4)
      = 788129934789837 / 2251799813685248"
    unfolding float_mul_def
    by (subst to_double_eq [where e = "- 2"]) (simp_all add: round_half_even_eval)
  have a: "float_add (35 / 10) (788129934789837 / 2251799813685248)
      = 8669429282688205 / 2251799813685248"
    unfolding float_add_def
    by (subst to_double_eq [where e = 1]) (simp_all add: round_half_even_eval)
  have r: "round_half_even (8669429282688205 / 2251799813685248 * 10) = 39"
    by (simp add: round_half_even_eval)
  have u: "fst (uniform E (to_double (35 / 10)) (to_double (49 / 10)) g)
      = 8669429282688205 / 2251799813685248"
    by (simp only: uniform_def split_beta Let_def fst_conv double_width assms m)
      (simp only: double_35 a)
  then show ?thesis
    by (simp only: round1_def r) simp
qed

text \<open>
  C4: the synthetic variant returns exactly 10 profiles, each with a rating from the float 3.5
  to the float 4.9 (the double of a tenth from 3.5 to 4.9) and a review count from 10 to 500,
  for any generator that honours its contract.
\<close>

theorem mock_scout_ranges:
  assumes "rng_ok E"
  shows "length (fst (mock_scout_service E industry location page w)) = 10
    \<and> (\<forall>b\<in>set (fst (mock_scout_service E industry location page w)).
          (\<exists>r d. p_rating b = PFloat r \<and> 35 \<le> d \<and> d \<le> 49 \<and> r = to_double (of_int d / 10)
                \<and> to_double (35 / 10) \<le> r \<and> r \<le> to_double (49 / 10))
        \<and> (\<exists>n. p_review_count b = PInt n \<and> 10 \<le> n \<and> n \<le> 500))"
proof -
  have "\<forall>b\<in>set (fst (mock_scout_service E industry location page w)).
          (\<exists>r d. p_rating b = PFloat r \<and> 35 \<le> d \<and> d \<le> 49 \<and> r = to_double (of_int d / 10)
                \<and> to_double (35 / 10) \<le> r \<and> r \<le> to_double (49 / 10))
        \<and> (\<exists>n. p_review_count b = PInt n \<and> 10 \<le> n \<and> n \<le> 500)"
    by (rule mock_all) (intro conjI mock_lead_rating mock_lead_review_count assms)
  then show ?thesis
    using mock_length by blast
qed

lemma mock_loop_hd:
  "hd (fst (mock_loop E industry location page (Suc n) g [])) =
     fst (mock_lead E industry location page g)"
proof -
  have "hd (fst (mock_loop E industry location page n g' (b # bs))) = b" for n g' b bs
    by (induction n arbitrary: g' bs) (simp_all add: split_beta)
  then show ?thesis by (simp add: split_beta)
qed

lemma mock_hd:
  "hd (fst (mock_scout_service E industry location page w)) =
     fst (mock_lead E industry location page (rng_seed E (industry @ location @ str_int page)))"
  unfolding mock_results eval_nat_numeral by (rule mock_loop_hd)

lemma mock_hd_in:
  "hd (fst (mock_scout_service E industry location page w))
     \<in> set (fst (mock_scout_service E industry location page w))"
  using mock_length [of E industry location page w] by (intro hd_in_set) auto

lemma str_int_1: "str_int 1 = ''1''"
  by code_simp

lemma fake_env_sel:
  "rng_seed (fake_env client) = length"
  "rng_random (fake_env client) = (\<lambda>g. (of_nat ((7 * g + 3) mod 16) / 16, g + 2))"
  "rng_randbelow (fake_env client) = (\<lambda>n g. ((g * g + g + 3) mod n, Suc g))"
  by (simp_all add: fake_env_def)

text \<open>With \<open>random() = 7 / 16\<close>: \<open>uniform(3.5, 4.9)\<close> is the double 4.1125000000000002, which
  \<open>round(x, 1)\<close> takes to the double 4.1.\<close>

lemma fake_rating:
  "round1 (fst (uniform (fake_env client) (to_double (35 / 10)) (to_double (49 / 10)) 28))
     = to_double (41 / 10)"
proof -
  have m: "float_mul (788129934789837 / 562949953421312) (7 / 16)
      = 5516909543528859 / 9007199254740992"
    unfolding float_mul_def
    by (subst to_double_eq [where e = "- 1"]) (simp_all add: round_half_even_eval)
  have a: "float_add (35 / 10) (5516909543528859 / 9007199254740992)
      = 4630263366890291 / 1125899906842624"
    unfolding float_add_def
    by (subst to_double_eq [where e = 2]) (simp_all add: round_half_even_eval)
  have r: "round_half_even (4630263366890291 / 1125899906842624 * 10) = 41"
    by (simp add: round_half_even_eval)
  have u: "fst (rng_random (fake_env client) 28) = 7 / 16"
    by (simp add: fake_env_sel)
  have "fst (uniform (fake_env client) (to_double (35 / 10)) (to_double (49 / 10)) 28)
      = 4630263366890291 / 1125899906842624"
    by (simp only: uniform_def split_beta Let_def fst_conv double_width u m)
      (simp only: double_35 a)
  then show ?thesis
    by (simp only: round1_def r) simp
qed

theorem mock_scout_ranges_witness:
  "rng_ok (fake_env None)
   \<and> length (fst (mock_scout_service (fake_env None) ''plumbing'' ''Austin, TX'' 1 (fake_world []))) = 10
   \<and> hd (fst (mock_scout_service (fake_env None) ''plumbing'' ''Austin, TX'' 1 (fake_world [])))
        \<in> set (fst (mock_scout_service (fake_env None) ''plumbing'' ''Austin, TX'' 1 (fake_world [])))
   \<and> p_rating (hd (fst (mock_scout_service (fake_env None) ''plumbing'' ''Austin, TX'' 1 (fake_world []))))
        = PFloat (to_double (41 / 10))
   \<and> p_review_count (hd (fst (mock_scout_service (fake_env None) ''plumbing'' ''Austin, TX'' 1 (fake_world []))))
        = PInt 452
   \<and> (\<exists>r d. p_rating (hd (fst (mock_scout_service (fake_env None) ''plumbing'' ''Austin, TX'' 1
                (fake_world [])))) = PFloat r
          \<and> 35 \<le> d \<and> d \<le> 49 \<and> r = to_double (of_int d / 10)
          \<and> to_double (35 / 10) \<le> r \<and> r \<le> to_double (49 / 10))
   \<and> (\<exists>n. p_review_count (hd (fst (mock_scout_service (fake_env None) ''plumbing'' ''Austin, TX'' 1
                (fake_world [])))) = PInt n \<and> 10 \<le> n \<and> n \<le> 500)"
proof -
  let ?L = "fst (mock_scout_service (fake_env None) ''plumbing'' ''Austin, TX'' 1 (fake_world []))"
  have seed: "rng_seed (fake_env None) (''plumbing'' @ ''Austin, TX'' @ str_int 1) = 19"
    by (simp add: fake_env_sel str_int_1)
  have "p_rating (fst (mock_lead (fake_env None) ''plumbing'' ''Austin, TX'' 1 19))
      = PFloat (round1 (fst (uniform (fake_env None) (to_double (35 / 10)) (to_double (49 / 10)) 28)))"
    by (simp add: mock_lead_def split_beta Let_def choice_def has_site_draw_def fake_env_sel)
  then have r: "p_rating (hd ?L) = PFloat (to_double (41 / 10))"
    by (simp only: mock_hd seed fake_rating)
  have "p_review_count (fst (mock_lead (fake_env None) ''plumbing'' ''Austin, TX'' 1 19)) = PInt 452"
    by (simp add: mock_lead_def split_beta Let_def randint_def uniform_def choice_def
        has_site_draw_def fake_env_sel)
  then have n: "p_review_count (hd ?L) = PInt 452"
    by (simp only: mock_hd seed)
  have ok: "rng_ok (fake_env None :: (nat, (exn + string) list) env)"
    by (rule fake_rng_ok)
  have i: "hd ?L \<in> set ?L"
    by (rule mock_hd_in)
  note th = mock_scout_ranges [OF ok, of "''plumbing''" "''Austin, TX''" 1 "fake_world []"]
  have len: "length ?L = 10"
    using th by (rule conjunct1)
  have b: "(\<exists>r d. p_rating (hd ?L) = PFloat r \<and> 35 \<le> d \<and> d \<le> 49 \<and> r = to_double (of_int d / 10)
          \<and> to_double (35 / 10) \<le> r \<and> r \<le> to_double (49 / 10))
     \<and> (\<exists>n. p_review_count (hd ?L) = PInt n \<and> 10 \<le> n \<and> n \<le> 500)"
    using th [THEN conjunct2] i by (rule bspec)
  show ?thesis
    using ok len i r n b by (simp only: simp_thms)
qed

lemma mock_lead_website:
  "p_website (fst (mock_lead E industry location page g)) = PNone \<longleftrightarrow> \<not> fst (has_site_draw E g)"
  by (simp add: mock_lead_def split_beta Let_def)

lemma mock_lead_fields:
  shows "p_industry (fst (mock_lead E industry location page g)) \<noteq> PNone"
    and "p_location (fst (mock_lead E industry location page g)) \<noteq> PNone"
    and "p_phone (fst (mock_lead E industry location page g)) \<noteq> PNone"
    and "p_email (fst (mock_lead E industry location page g)) \<noteq> PNone"
    and "p_social_media (fst (mock_lead E industry location page g)) \<noteq> PNone"
    and "p_source_url (fst (mock_lead E industry location page g)) \<noteq> PNone"
    and "p_rating (fst (mock_lead E industry location page g)) \<noteq> PNone"
    and "p_review_count (fst (mock_lead E industry location page g)) \<noteq> PNone"
  by (simp_all add: mock_lead_def split_beta Let_def)


text \<open>
  C2: two runs of the synthetic variant with the same arguments in one process return the
  same list, whatever state each run starts from: \<open>random.seed\<close> resets the generator from the
  arguments alone, and the generator is left in the same state.
\<close>

theorem mock_scout_deterministic:
  "fst (mock_scout_service E industry location page w)
     = fst (mock_scout_service E industry location page w')
   \<and> rng_state (snd (mock_scout_service E industry location page w))
     = rng_state (snd (mock_scout_service E industry location page w'))"
  by (simp add: mock_scout_service_def split_beta Let_def)

text \<open>
  C10: every profile of the synthetic variant has an email, a phone, a source URL, a rating and
  a review count that are not \<open>None\<close> (nor are its industry, location and social links); its
  website is \<open>None\<close> exactly when the website-presence draw of its pass of the loop is false.
\<close>

theorem mock_scout_non_null:
  "\<forall>b\<in>set (fst (mock_scout_service E industry location page w)).
      p_email b \<noteq> PNone \<and> p_phone b \<noteq> PNone \<and> p_source_url b \<noteq> PNone
    \<and> p_rating b \<noteq> PNone \<and> p_review_count b \<noteq> PNone
    \<and> p_industry b \<noteq> PNone \<and> p_location b \<noteq> PNone \<and> p_social_media b \<noteq> PNone
    \<and> (\<exists>g. b = fst (mock_lead E industry location page g)
           \<and> (p_website b = PNone \<longleftrightarrow> \<not> fst (has_site_draw E g)))"
proof (rule mock_all, intro conjI)
  fix g
  show "\<exists>g'. fst (mock_lead E industry location page g) = fst (mock_lead E industry location page g')
     \<and> (p_website (fst (mock_lead E industry location page g)) = PNone
          \<longleftrightarrow> \<not> fst (has_site_draw E g'))"
    by (rule exI [of _ g]) (simp only: mock_lead_website simp_thms)
qed (rule mock_lead_fields)+

theorem mock_scout_non_null_witness:
  "hd (fst (mock_scout_service (fake_env None) ''plumbing'' ''Austin, TX'' 1 (fake_world [])))
     \<in> set (fst (mock_scout_service (fake_env None) ''plumbing'' ''Austin, TX'' 1 (fake_world [])))
   \<and> p_email (hd (fst (mock_scout_service (fake_env None) ''plumbing'' ''Austin, TX'' 1 (fake_world []))))
       = PStr ''cornerstoneplumbingservices@gmail.com''
   \<and> p_website (hd (fst (mock_scout_service (fake_env None) ''plumbing'' ''Austin, TX'' 1 (fake_world []))))
       = PNone
   \<and> \<not> fst (has_site_draw (fake_env None) 19)
   \<and> p_email (hd (fst (mock_scout_service (fake_env None) ''plumbing'' ''Austin, TX'' 1 (fake_world []))))
       \<noteq> PNone
   \<and> p_phone (hd (fst (mock_scout_service (fake_env None) ''plumbing'' ''Austin, TX'' 1 (fake_world []))))
       \<noteq> PNone
   \<and> p_source_url (hd (fst (mock_scout_service (fake_env None) ''plumbing'' ''Austin, TX'' 1 (fake_world []))))
       \<noteq> PNone
   \<and> p_rating (hd (fst (mock_scout_service (fake_env None) ''plumbing'' ''Austin, TX'' 1 (fake_world []))))
       \<noteq> PNone
   \<and> p_review_count (hd (fst (mock_scout_service (fake_env None) ''plumbing'' ''Austin, TX'' 1 (fake_world []))))
       \<noteq> PNone
   \<and> (\<exists>g. hd (fst (mock_scout_service (fake_env None) ''plumbing'' ''Austin, TX'' 1 (fake_world [])))
            = fst (mock_lead (fake_env None) ''plumbing'' ''Austin, TX'' 1 g)
         \<and> (p_website (hd (fst (mock_scout_service (fake_env None) ''plumbing'' ''Austin, TX'' 1
                (fake_world [])))) = PNone
              \<longleftrightarrow> \<not> fst (has_site_draw (fake_env None) g)))"
proof -
  let ?L = "fst (mock_scout_service (fake_env None) ''plumbing'' ''Austin, TX'' 1 (fake_world []))"
  have seed: "rng_seed (fake_env None) (''plumbing'' @ ''Austin, TX'' @ str_int 1) = 19"
    by (simp add: fake_env_def str_int_1)
  have d: "\<not> fst (has_site_draw (fake_env None) 19)"
    by (simp add: has_site_draw_def choice_def fake_env_def)
  then have "p_website (fst (mock_lead (fake_env None) ''plumbing'' ''Austin, TX'' 1 19)) = PNone"
    by (simp only: mock_lead_website simp_thms)
  then have w: "p_website (hd ?L) = PNone"
    by (simp only: mock_hd seed)
  have c1: "lower (replace ''Cornerstone Plumbing Services'' CHR '' '' []) = ''cornerstoneplumbingservices''"
    by code_simp
  have c2: "capitalize ''plumbing'' = ''Plumbing''"
    by code_simp
  have "p_email (fst (mock_lead (fake_env None) ''plumbing'' ''Austin, TX'' 1 19))
       = PStr ''cornerstoneplumbingservices@gmail.com''"
    by (simp add: mock_lead_def split_beta Let_def choice_def has_site_draw_def fake_env_def
        base_names_def suffixes_def c1 c2 del: capitalize.simps)
  then have e: "p_email (hd ?L) = PStr ''cornerstoneplumbingservices@gmail.com''"
    by (simp only: mock_hd seed)
  have i: "hd ?L \<in> set ?L"
    by (rule mock_hd_in)
  have b: "p_email (hd ?L) \<noteq> PNone \<and> p_phone (hd ?L) \<noteq> PNone \<and> p_source_url (hd ?L) \<noteq> PNone
    \<and> p_rating (hd ?L) \<noteq> PNone \<and> p_review_count (hd ?L) \<noteq> PNone
    \<and> p_industry (hd ?L) \<noteq> PNone \<and> p_location (hd ?L) \<noteq> PNone \<and> p_social_media (hd ?L) \<noteq> PNone
    \<and> (\<exists>g. hd ?L = fst (mock_lead (fake_env None) ''plumbing'' ''Austin, TX'' 1 g)
           \<and> (p_website (hd ?L) = PNone \<longleftrightarrow> \<not> fst (has_site_draw (fake_env None) g)))"
    using mock_scout_non_null [of "fake_env None" "''plumbing''" "''Austin, TX''" 1 "fake_world []"] i
    by (rule bspec)
  show ?thesis
    using i e w d b by (simp only: simp_thms)
qed

section \<open>Properties of the model-backed scout\<close>

lemma process_items_length:
  "process_items E industry location items results = Inr rs
     \<Longrightarrow> length rs = length results + length items"
  by (induction items arbitrary: results) (auto split: sum.splits)

lemma ai_scout_no_model:
  "model E = None \<Longrightarrow>
     ai_scout_service E industry location page w = mock_scout_service E industry location page w"
  by (simp add: ai_scout_service_def)

lemma ai_scout_raised:
  assumes "model E = Some generate_content"
    and "scout_try E generate_content industry location page w = (Inl e, w')"
  shows "ai_scout_service E industry location page w = mock_scout_service E industry location page w'"
  using assms by (simp add: ai_scout_service_def)

lemma ai_scout_returned:
  assumes "model E = Some generate_content"
    and "scout_try E generate_content industry location page w = (Inr rs, w')"
  shows "ai_scout_service E industry location page w = (rs, w')"
  using assms by (simp add: ai_scout_service_def)

lemma scout_try_cases:
  assumes "generate_content (scout_prompt industry location page) (client_state w) = (response, m')"
  shows "scout_try E generate_content industry location page w =
     (case response of
        Inl e \<Rightarrow> Inl e
      | Inr text \<Rightarrow>
          (case json_loads E text of
             Inl e \<Rightarrow> Inl e
           | Inr data \<Rightarrow>
               (case iterate data of
                  Inl e \<Rightarrow> Inl e
                | Inr items \<Rightarrow> process_items E industry location items [])),
      w\<lparr>client_state := m', calls := calls w + 1\<rparr>)"
  using assms by (simp add: scout_try_def split: sum.splits)

lemma process_items_raises:
  assumes "item \<in> set items" and "process_item E industry location item = Inl e"
  shows "\<exists>e'. process_items E industry location items results = Inl e'"
  using assms(1)
proof (induction items arbitrary: results)
  case Nil
  then show ?case by simp
next
  case (Cons x xs)
  show ?case
  proof (cases "process_item E industry location x")
    case (Inl e')
    then show ?thesis by simp
  next
    case (Inr b)
    then have "x \<noteq> item"
      using assms(2) by auto
    then have "item \<in> set xs"
      using Cons.prems by simp
    then show ?thesis
      using Cons.IH [of "results @ [b]"] Inr by simp
  qed
qed

text \<open>
  C3: when the call to the model, \<open>json.loads\<close>, the iteration over the parsed value or the
  processing of any one item raises, \<open>ai_scout_service\<close> returns what \<open>mock_scout_service\<close>
  returns for the same arguments: the same 10 profiles, nothing of the items processed before
  the exception, and no exception.
\<close>

theorem ai_scout_fallback:
  assumes "model E = Some generate_content"
    and "generate_content (scout_prompt industry location page) (client_state w) = (response, m')"
    and "response = Inl e
       \<or> (\<exists>text. response = Inr text \<and> json_loads E text = Inl e)
       \<or> (\<exists>text data. response = Inr text \<and> json_loads E text = Inr data \<and> iterate data = Inl e)
       \<or> (\<exists>text data items item. response = Inr text \<and> json_loads E text = Inr data
            \<and> iterate data = Inr items \<and> item \<in> set items
            \<and> process_item E industry location item = Inl e)"
  shows "ai_scout_service E industry location page w
           = mock_scout_service E industry location page (w\<lparr>client_state := m', calls := calls w + 1\<rparr>)
       \<and> fst (ai_scout_service E industry location page w)
           = fst (mock_scout_service E industry location page w)
       \<and> length (fst (ai_scout_service E industry location page w)) = 10"
proof -
  have "\<exists>e'. scout_try E generate_content industry location page w
          = (Inl e', w\<lparr>client_state := m', calls := calls w + 1\<rparr>)"
    using assms(3)
  proof (elim disjE exE conjE)
    fix body parsed items item
    assume r: "response = Inr body" "json_loads E body = Inr parsed" "iterate parsed = Inr items"
      and i: "item \<in> set items" "process_item E industry location item = Inl e"
    obtain e' where "process_items E industry location items [] = Inl e'"
      using process_items_raises [OF i] by blast
    then show ?thesis
      using assms(2) r by (simp add: scout_try_def)
  qed (use assms(2) in \<open>simp_all add: scout_try_def\<close>)
  then obtain e' where "scout_try E generate_content industry location page w
          = (Inl e', w\<lparr>client_state := m', calls := calls w + 1\<rparr>)"
    by blast
  then have a: "ai_scout_service E industry location page w
           = mock_scout_service E industry location page (w\<lparr>client_state := m', calls := calls w + 1\<rparr>)"
    by (rule ai_scout_raised [OF assms(1)])
  show ?thesis
    unfolding a using mock_independent mock_length by blast
qed

lemma fake_json_loads_simps:
  "fake_json_loads ''not json'' = Inl (JSONDecodeError ''Expecting value: line 1 column 1 (char 0)'')"
  "fake_json_loads ''null'' = Inr PNone"
  "fake_json_loads ''[7]'' = Inr (PList [PInt 7])"
  "fake_json_loads ''[{}]'' = Inr (PList [PDict []])"
  "fake_json_loads ''[]'' = Inr (PList [])"
  "fake_json_loads mixed_items_text = Inr (PList [PDict [(''name'', PStr ''A'')], PInt 7])"
  by (simp_all add: fake_json_loads_def score_150_text_def two_items_text_def mixed_items_text_def dq_def)

theorem ai_scout_fallback_witness:
  "json_loads (fake_env (Some fake_client)) ''not json''
      = Inl (JSONDecodeError ''Expecting value: line 1 column 1 (char 0)'')
   \<and> json_loads (fake_env (Some fake_client)) ''null'' = Inr PNone
   \<and> iterate PNone = Inl (TypeError ''object is not iterable'')
   \<and> json_loads (fake_env (Some fake_client)) mixed_items_text
      = Inr (PList [PDict [(''name'', PStr ''A'')], PInt 7])
   \<and> p_name (projr (process_item (fake_env (Some fake_client)) ''plumbing'' ''Austin, TX''
        (PDict [(''name'', PStr ''A'')]))) = ''A''
   \<and> isl (process_item (fake_env (Some fake_client)) ''plumbing'' ''Austin, TX'' (PInt 7))
   \<and> PInt 7 \<in> set [PDict [(''name'', PStr ''A'')], PInt 7]
   \<and> list_all (\<lambda>script.
        fst (ai_scout_service (fake_env (Some fake_client)) ''plumbing'' ''Austin, TX'' 1 (fake_world script))
          = fst (mock_scout_service (fake_env (Some fake_client)) ''plumbing'' ''Austin, TX'' 1
                  (fake_world script))
        \<and> length (fst (ai_scout_service (fake_env (Some fake_client)) ''plumbing'' ''Austin, TX'' 1
                  (fake_world script))) = 10)
      [[Inl (ModelError ''503 unavailable'')], [Inr ''not json''], [Inr ''null''], [Inr ''[7]''],
       [Inr mixed_items_text]]"
proof -
  let ?E = "fake_env (Some fake_client)"
  have m: "model ?E = Some fake_client"
    by (simp add: fake_env_def)
  have g: "fake_client (scout_prompt ''plumbing'' ''Austin, TX'' 1) (client_state (fake_world [r])) = (r, [])"
    for r
    by (simp add: fake_client_def fake_world_def)
  have j1: "json_loads ?E ''not json'' = Inl (JSONDecodeError ''Expecting value: line 1 column 1 (char 0)'')"
    and j2: "json_loads ?E ''null'' = Inr PNone"
    and j3: "json_loads ?E ''[7]'' = Inr (PList [PInt 7])"
    and j4: "json_loads ?E mixed_items_text = Inr (PList [PDict [(''name'', PStr ''A'')], PInt 7])"
    by (simp_all add: fake_env_def fake_json_loads_simps)
  have i2: "iterate PNone = Inl (TypeError ''object is not iterable'')"
    and i3: "iterate (PList [PInt 7]) = Inr [PInt 7]"
    and i4: "iterate (PList [PDict [(''name'', PStr ''A'')], PInt 7])
               = Inr [PDict [(''name'', PStr ''A'')], PInt 7]"
    by (simp_all add: iterate_def)
  have p3: "process_item ?E ''plumbing'' ''Austin, TX'' (PInt 7)
      = Inl (AttributeError ''object has no attribute get'')"
    by (simp add: process_item_def)
  have p4: "p_name (projr (process_item ?E ''plumbing'' ''Austin, TX'' (PDict [(''name'', PStr ''A'')])))
      = ''A''"
    by (simp add: process_item_def dict_get_def Let_def)
  have s3: "PInt 7 \<in> set [PInt 7]" and s4: "PInt 7 \<in> set [PDict [(''name'', PStr ''A'')], PInt 7]"
    by simp_all
  note f = ai_scout_fallback [OF m g]
  have c1: "fst (ai_scout_service ?E ''plumbing'' ''Austin, TX'' 1 (fake_world [Inl (ModelError ''503 unavailable'')]))
          = fst (mock_scout_service ?E ''plumbing'' ''Austin, TX'' 1 (fake_world [Inl (ModelError ''503 unavailable'')]))
        \<and> length (fst (ai_scout_service ?E ''plumbing'' ''Austin, TX'' 1 (fake_world [Inl (ModelError ''503 unavailable'')]))) = 10"
    by (rule conjunct2 [OF f [of "Inl (ModelError ''503 unavailable'')" "ModelError ''503 unavailable''",
          OF disjI1 [OF refl]]])
  have c2: "fst (ai_scout_service ?E ''plumbing'' ''Austin, TX'' 1 (fake_world [Inr ''not json'']))
          = fst (mock_scout_service ?E ''plumbing'' ''Austin, TX'' 1 (fake_world [Inr ''not json'']))
        \<and> length (fst (ai_scout_service ?E ''plumbing'' ''Austin, TX'' 1 (fake_world [Inr ''not json'']))) = 10"
  proof -
    have "\<exists>body. Inr ''not json'' = (Inr body :: exn + string) \<and> json_loads ?E body
        = Inl (JSONDecodeError ''Expecting value: line 1 column 1 (char 0)'')"
      by (intro exI conjI, rule refl, rule j1)
    then show ?thesis
      by (rule conjunct2 [OF f [of "Inr ''not json''" "JSONDecodeError ''Expecting value: line 1 column 1 (char 0)''",
          OF disjI2 [OF disjI1]]])
  qed
  have c3: "fst (ai_scout_service ?E ''plumbing'' ''Austin, TX'' 1 (fake_world [Inr ''null'']))
          = fst (mock_scout_service ?E ''plumbing'' ''Austin, TX'' 1 (fake_world [Inr ''null'']))
        \<and> length (fst (ai_scout_service ?E ''plumbing'' ''Austin, TX'' 1 (fake_world [Inr ''null'']))) = 10"
  proof -
    have "\<exists>body parsed. Inr ''null'' = (Inr body :: exn + string) \<and> json_loads ?E body = Inr parsed
        \<and> iterate parsed = Inl (TypeError ''object is not iterable'')"
      by (intro exI conjI, rule refl, rule j2, rule i2)
    then show ?thesis
      by (rule conjunct2 [OF f [of "Inr ''null''" "TypeError ''object is not iterable''",
          OF disjI2 [OF disjI2 [OF disjI1]]]])
  qed
  have c4: "fst (ai_scout_service ?E ''plumbing'' ''Austin, TX'' 1 (fake_world [Inr ''[7]'']))
          = fst (mock_scout_service ?E ''plumbing'' ''Austin, TX'' 1 (fake_world [Inr ''[7]'']))
        \<and> length (fst (ai_scout_service ?E ''plumbing'' ''Austin, TX'' 1 (fake_world [Inr ''[7]'']))) = 10"
  proof -
    have "\<exists>body parsed items item. Inr ''[7]'' = (Inr body :: exn + string)
        \<and> json_loads ?E body = Inr parsed \<and> iterate parsed = Inr items \<and> item \<in> set items
        \<and> process_item ?E ''plumbing'' ''Austin, TX'' item
            = Inl (AttributeError ''object has no attribute get'')"
      by (intro exI conjI, rule refl, rule j3, rule i3, rule s3, rule p3)
    then show ?thesis
      by (rule conjunct2 [OF f [of "Inr ''[7]''" "AttributeError ''object has no attribute get''",
          OF disjI2 [OF disjI2 [OF disjI2]]]])
  qed
  have c5: "fst (ai_scout_service ?E ''plumbing'' ''Austin, TX'' 1 (fake_world [Inr mixed_items_text]))
          = fst (mock_scout_service ?E ''plumbing'' ''Austin, TX'' 1 (fake_world [Inr mixed_items_text]))
        \<and> length (fst (ai_scout_service ?E ''plumbing'' ''Austin, TX'' 1 (fake_world [Inr mixed_items_text]))) = 10"
  proof -
    have "\<exists>body parsed items item. Inr mixed_items_text = (Inr body :: exn + string)
        \<and> json_loads ?E body = Inr parsed \<and> iterate parsed = Inr items \<and> item \<in> set items
        \<and> process_item ?E ''plumbing'' ''Austin, TX'' item
            = Inl (AttributeError ''object has no attribute get'')"
      by (intro exI conjI, rule refl, rule j4, rule i4, rule s4, rule p3)
    then show ?thesis
      by (rule conjunct2 [OF f [of "Inr mixed_items_text" "AttributeError ''object has no attribute get''",
          OF disjI2 [OF disjI2 [OF disjI2]]]])
  qed
  have l: "isl (process_item ?E ''plumbing'' ''Austin, TX'' (PInt 7))"
    by (simp only: p3 sum.disc)
  show ?thesis
    by (simp only: list.pred_inject j1 j2 j4 i2 p4 l s4 c1 c2 c3 c4 c5 mock_length simp_thms)
qed

text \<open>
  C1, as stated, fails for the model-backed variant: a response that parses to a list of one
  item yields one profile.
\<close>

theorem scout_ten_counterexample:
  "length (fst (scout (fake_env (Some fake_client))
             \<lparr>sr_industry = ''plumbing'', sr_location = ''Austin, TX'', sr_page = 1\<rparr>
             (fake_world [Inr ''[{}]'']))) = 1
   \<and> length (fst (scout (fake_env (Some fake_client))
             \<lparr>sr_industry = ''plumbing'', sr_location = ''Austin, TX'', sr_page = 1\<rparr>
             (fake_world [Inr ''[{}]'']))) \<noteq> 10"
  by (simp add: scout_def ai_scout_service_def scout_try_def fake_env_def fake_client_def
      fake_world_def fake_json_loads_simps iterate_def process_item_def dict_get_def Let_def)

text \<open>
  C1, amended: the synthetic variant returns exactly 10 profiles, and so does the model-backed
  variant when no model is configured or when its \<open>try\<close> block raises; when the \<open>try\<close> block
  succeeds, the model-backed variant returns one profile for each element of the parsed
  response.
\<close>

theorem scout_profile_count:
  "length (fst (mock_scout_service E industry location page w)) = 10
   \<and> (model E = None \<longrightarrow>
        length (fst (scout E \<lparr>sr_industry = industry, sr_location = location, sr_page = page\<rparr> w)) = 10)
   \<and> (model E = Some generate_content
        \<and> fst (scout_try E generate_content industry location page w) = Inl e \<longrightarrow>
        length (fst (scout E \<lparr>sr_industry = industry, sr_location = location, sr_page = page\<rparr> w)) = 10)
   \<and> (model E = Some generate_content
        \<and> generate_content (scout_prompt industry location page) (client_state w) = (Inr text, m')
        \<and> json_loads E text = Inr data \<and> iterate data = Inr items
        \<and> process_items E industry location items [] = Inr rs \<longrightarrow>
        fst (scout E \<lparr>sr_industry = industry, sr_location = location, sr_page = page\<rparr> w) = rs
        \<and> length rs = length items)"
proof (intro conjI impI)
  show "length (fst (mock_scout_service E industry location page w)) = 10"
    by (rule mock_length)
next
  assume "model E = None"
  then show "length (fst (scout E \<lparr>sr_industry = industry, sr_location = location, sr_page = page\<rparr> w)) = 10"
    by (simp add: scout_def ai_scout_no_model mock_length)
next
  assume a: "model E = Some generate_content
        \<and> fst (scout_try E generate_content industry location page w) = Inl e"
  then have "scout_try E generate_content industry location page w
     = (Inl e, snd (scout_try E generate_content industry location page w))"
    by (metis prod.collapse)
  then show "length (fst (scout E \<lparr>sr_industry = industry, sr_location = location, sr_page = page\<rparr> w)) = 10"
    using a by (simp add: scout_def ai_scout_raised mock_length)
next
  assume a: "model E = Some generate_content
        \<and> generate_content (scout_prompt industry location page) (client_state w) = (Inr text, m')
        \<and> json_loads E text = Inr data \<and> iterate data = Inr items
        \<and> process_items E industry location items [] = Inr rs"
  then have "scout_try E generate_content industry location page w
     = (Inr rs, w\<lparr>client_state := m', calls := calls w + 1\<rparr>)"
    by (simp add: scout_try_def)
  then show "fst (scout E \<lparr>sr_industry = industry, sr_location = location, sr_page = page\<rparr> w) = rs"
    using a by (simp add: scout_def ai_scout_returned)
  show "length rs = length items"
    using a process_items_length [of E industry location items "[]" rs] by simp
qed


theorem scout_profile_count_witness:
  "model (fake_env None :: (nat, (exn + string) list) env) = None
   \<and> length (fst (scout (fake_env None)
        \<lparr>sr_industry = ''plumbing'', sr_location = ''Austin, TX'', sr_page = 1\<rparr> (fake_world []))) = 10
   \<and> fst (scout_try (fake_env (Some fake_client)) fake_client ''plumbing'' ''Austin, TX'' 1
            (fake_world [Inl (ModelError ''503 unavailable'')])) = Inl (ModelError ''503 unavailable'')
   \<and> length (fst (scout (fake_env (Some fake_client))
        \<lparr>sr_industry = ''plumbing'', sr_location = ''Austin, TX'', sr_page = 1\<rparr>
        (fake_world [Inl (ModelError ''503 unavailable'')]))) = 10
   \<and> json_loads (fake_env (Some fake_client)) ''[{}]'' = Inr (PList [PDict []])
   \<and> iterate (PList [PDict []]) = Inr [PDict []]
   \<and> length (fst (scout (fake_env (Some fake_client))
        \<lparr>sr_industry = ''plumbing'', sr_location = ''Austin, TX'', sr_page = 1\<rparr>
        (fake_world [Inr ''[{}]'']))) = length [PDict []]"
proof -
  let ?E = "fake_env (Some fake_client)"
  have m0: "model (fake_env None :: (nat, (exn + string) list) env) = None"
    and m: "model ?E = Some fake_client"
    by (simp_all add: fake_env_def)
  have t: "fst (scout_try ?E fake_client ''plumbing'' ''Austin, TX'' 1
            (fake_world [Inl (ModelError ''503 unavailable'')])) = Inl (ModelError ''503 unavailable'')"
    by (simp add: scout_try_def fake_client_def fake_world_def)
  have g: "fake_client (scout_prompt ''plumbing'' ''Austin, TX'' 1) (client_state (fake_world [Inr ''[{}]'']))
      = (Inr ''[{}]'', [])"
    by (simp add: fake_client_def fake_world_def)
  have j: "json_loads ?E ''[{}]'' = Inr (PList [PDict []])"
    by (simp add: fake_env_def fake_json_loads_simps)
  have i: "iterate (PList [PDict []]) = Inr [PDict []]"
    by (simp add: iterate_def)
  obtain rs where p: "process_items ?E ''plumbing'' ''Austin, TX'' [PDict []] [] = Inr rs"
    by (simp add: process_item_def dict_get_def Let_def)
  have a: "length (fst (scout (fake_env None)
        \<lparr>sr_industry = ''plumbing'', sr_location = ''Austin, TX'', sr_page = 1\<rparr> (fake_world []))) = 10"
    using scout_profile_count [of "fake_env None" "''plumbing''" "''Austin, TX''" 1 "fake_world []"] m0
    by blast
  have b: "length (fst (scout ?E
        \<lparr>sr_industry = ''plumbing'', sr_location = ''Austin, TX'', sr_page = 1\<rparr>
        (fake_world [Inl (ModelError ''503 unavailable'')]))) = 10"
    using scout_profile_count [of ?E "''plumbing''" "''Austin, TX''" 1
        "fake_world [Inl (ModelError ''503 unavailable'')]" fake_client "ModelError ''503 unavailable''"] m t
    by blast
  have c: "length (fst (scout ?E
        \<lparr>sr_industry = ''plumbing'', sr_location = ''Austin, TX'', sr_page = 1\<rparr>
        (fake_world [Inr ''[{}]'']))) = length [PDict []]"
    using scout_profile_count [of ?E "''plumbing''" "''Austin, TX''" 1
        "fake_world [Inr ''[{}]'']" fake_client _ "''[{}]''" "[]" "PList [PDict []]" "[PDict []]" rs]
      m g j i p
    by blast
  show ?thesis
    using m0 t j i a b c by (simp only: simp_thms)
qed

section \<open>Properties of the audit service\<close>

lemma attempts_eq: "[0..<max_retries] = [0, 1, 2]"
  by (simp add: max_retries_def upt_rec)

lemma audit_try_effect:
  assumes "audit_try E generate_content prompt w = (r, w')"
  shows "slept w' = slept w" and "calls w' = calls w + 1" and "rng_state w' = rng_state w"
  using assms by (auto simp: audit_try_def split_beta Let_def split: sum.splits)

lemma audit_try_returned:
  assumes "audit_try E generate_content prompt w = (Inr v, w')"
  shows "\<exists>body m'. generate_content prompt (client_state w) = (Inr body, m')
      \<and> json_loads E body = Inr v \<and> w' = w\<lparr>client_state := m', calls := calls w + 1\<rparr>"
proof -
  obtain response m' where c: "generate_content prompt (client_state w) = (response, m')"
    by (cases "generate_content prompt (client_state w)")
  show ?thesis
  proof (cases response)
    case (Inl e)
    then show ?thesis
      using assms c by (simp add: audit_try_def)
  next
    case (Inr body)
    then show ?thesis
      using assms c by (simp add: audit_try_def)
  qed
qed

lemma audit_try_success:
  assumes "generate_content prompt (client_state w) = (Inr body, m')"
  shows "audit_try E generate_content prompt w
      = (json_loads E body, w\<lparr>client_state := m', calls := calls w + 1\<rparr>)"
  using assms by (simp add: audit_try_def)

lemma audit_loop_last_attempt:
  assumes "attempts \<noteq> []" and "\<not> last attempts < max_retries - 1"
  shows "\<exists>w0. (\<exists>e. audit_try E generate_content prompt w0
                    = (Inl e, snd (audit_loop E generate_content prompt attempts w))
                \<and> rate_limited e
                \<and> fst (audit_loop E generate_content prompt attempts w) = rate_limit_result)
          \<or> (\<exists>e. audit_try E generate_content prompt w0
                    = (Inl e, snd (audit_loop E generate_content prompt attempts w))
                \<and> \<not> rate_limited e
                \<and> fst (audit_loop E generate_content prompt attempts w) = generic_error_result)
          \<or> audit_try E generate_content prompt w0
               = (Inr (fst (audit_loop E generate_content prompt attempts w)),
                  snd (audit_loop E generate_content prompt attempts w))"
  using assms
proof (induction attempts arbitrary: w)
  case Nil
  then show ?case by simp
next
  case (Cons attempt rest)
  obtain r w1 where t: "audit_try E generate_content prompt w = (r, w1)"
    by (cases "audit_try E generate_content prompt w")
  show ?case
  proof (cases r)
    case (Inr v)
    then have "audit_loop E generate_content prompt (attempt # rest) w = (v, w1)"
      using t by simp
    then show ?thesis
      using t Inr by (intro exI [of _ w]) simp
  next
    case (Inl e)
    show ?thesis
    proof (cases "rate_limited e")
      case False
      then have "audit_loop E generate_content prompt (attempt # rest) w = (generic_error_result, w1)"
        using t Inl by simp
      then show ?thesis
        using t Inl False by (intro exI [of _ w]) simp
    next
      case True
      show ?thesis
      proof (cases "attempt < max_retries - 1")
        case False
        then have "audit_loop E generate_content prompt (attempt # rest) w = (rate_limit_result, w1)"
          using t Inl True by simp
        then show ?thesis
          using t Inl True by (intro exI [of _ w]) simp
      next
        case less: True
        then have n: "rest \<noteq> []"
          using Cons.prems(2) by auto
        then have "\<not> last rest < max_retries - 1"
          using Cons.prems(2) by simp
        moreover have "audit_loop E generate_content prompt (attempt # rest) w
            = audit_loop E generate_content prompt rest (sleep retry_delay w1)"
          using t Inl True less by simp
        ultimately show ?thesis
          using Cons.IH [OF n, of "sleep retry_delay w1"] by simp
      qed
    qed
  qed
qed

lemma audit_loop_calls:
  "calls (snd (audit_loop E generate_content prompt attempts w)) \<le> calls w + length attempts"
proof (induction attempts arbitrary: w)
  case Nil
  then show ?case by simp
next
  case (Cons attempt rest)
  obtain r w1 where t: "audit_try E generate_content prompt w = (r, w1)"
    by (cases "audit_try E generate_content prompt w")
  have c: "calls w1 = calls w + 1"
    using t by (rule audit_try_effect)
  have "calls (snd (audit_loop E generate_content prompt rest (sleep retry_delay w1)))
      \<le> calls w1 + length rest"
    using Cons.IH [of "sleep retry_delay w1"] by (simp add: sleep_def)
  then show ?case
    using t c by (auto split: sum.splits)
qed

lemma audit_loop_sleeps:
  assumes "attempts \<noteq> []" and "\<not> last attempts < max_retries - 1"
  shows "length (slept (snd (audit_loop E generate_content prompt attempts w)))
      \<le> length (slept w) + (length attempts - 1)"
  using assms
proof (induction attempts arbitrary: w)
  case Nil
  then show ?case by simp
next
  case (Cons attempt rest)
  obtain r w1 where t: "audit_try E generate_content prompt w = (r, w1)"
    by (cases "audit_try E generate_content prompt w")
  have s: "slept w1 = slept w"
    using t by (rule audit_try_effect)
  show ?case
  proof (cases "\<exists>e. r = Inl e \<and> rate_limited e \<and> attempt < max_retries - 1")
    case True
    then obtain e where e: "r = Inl e" "rate_limited e" "attempt < max_retries - 1"
      by blast
    then have n: "rest \<noteq> []"
      using Cons.prems(2) by auto
    then have "\<not> last rest < max_retries - 1"
      using Cons.prems(2) by simp
    then have "length (slept (snd (audit_loop E generate_content prompt rest (sleep retry_delay w1))))
      \<le> length (slept (sleep retry_delay w1)) + (length rest - 1)"
      using n by (rule Cons.IH [rotated])
    moreover have "0 < length rest"
      using n by simp
    ultimately show ?thesis
      using t e s by (simp add: sleep_def)
  next
    case False
    then show ?thesis
      using t s by (auto split: sum.splits)
  qed
qed


lemma last_attempt: "[0..<max_retries] \<noteq> [] \<and> \<not> last [0..<max_retries] < max_retries - 1"
  by (simp add: attempts_eq) (simp add: max_retries_def)

lemma fixed_scores:
  "audit_score no_model_result = Some (PInt 45)"
  "audit_score rate_limit_result = Some (PInt 0)"
  "audit_score generic_error_result = Some (PInt 0)"
  by (simp_all add: audit_score_def dict_field_def no_model_result_def rate_limit_result_def
      generic_error_result_def)

text \<open>
  C5: with a model configured, an attempt that fails with a message containing \<open>429\<close> or
  \<open>Quota exceeded\<close> is followed by a sleep of 60 and another attempt, except the third, after
  which the rate-limit result (score 0) is returned with two sleeps made; an attempt that fails
  with any other message returns the generic-error result (score 0) at once, with no sleep and
  no further call. At most 3 calls and 2 sleeps are ever made.
\<close>

theorem audit_retry_policy:
  assumes "model E = Some generate_content"
  shows
   "(audit_try E generate_content (audit_prompt data) w = (Inl e1, w1) \<and> \<not> rate_limited e1 \<longrightarrow>
       generate_audit_and_message E data w = (generic_error_result, w1)
       \<and> slept w1 = slept w \<and> calls w1 = calls w + 1)
    \<and> (audit_try E generate_content (audit_prompt data) w = (Inl e1, w1) \<and> rate_limited e1
        \<and> audit_try E generate_content (audit_prompt data) (sleep retry_delay w1) = (Inl e2, w2)
        \<and> \<not> rate_limited e2 \<longrightarrow>
       generate_audit_and_message E data w = (generic_error_result, w2)
       \<and> slept w2 = slept w @ [60] \<and> calls w2 = calls w + 2)
    \<and> (audit_try E generate_content (audit_prompt data) w = (Inl e1, w1) \<and> rate_limited e1
        \<and> audit_try E generate_content (audit_prompt data) (sleep retry_delay w1) = (Inl e2, w2)
        \<and> rate_limited e2
        \<and> audit_try E generate_content (audit_prompt data) (sleep retry_delay w2) = (Inl e3, w3)
        \<and> \<not> rate_limited e3 \<longrightarrow>
       generate_audit_and_message E data w = (generic_error_result, w3)
       \<and> slept w3 = slept w @ [60, 60] \<and> calls w3 = calls w + 3)
    \<and> (audit_try E generate_content (audit_prompt data) w = (Inl e1, w1) \<and> rate_limited e1
        \<and> audit_try E generate_content (audit_prompt data) (sleep retry_delay w1) = (Inl e2, w2)
        \<and> rate_limited e2
        \<and> audit_try E generate_content (audit_prompt data) (sleep retry_delay w2) = (Inl e3, w3)
        \<and> rate_limited e3 \<longrightarrow>
       generate_audit_and_message E data w = (rate_limit_result, w3)
       \<and> slept w3 = slept w @ [60, 60] \<and> calls w3 = calls w + 3)
    \<and> audit_score generic_error_result = Some (PInt 0)
    \<and> audit_score rate_limit_result = Some (PInt 0)
    \<and> calls (snd (generate_audit_and_message E data w)) \<le> calls w + 3
    \<and> length (slept (snd (generate_audit_and_message E data w))) \<le> length (slept w) + 2"
proof -
  let ?att = "audit_try E generate_content (audit_prompt data)"
  have g: "generate_audit_and_message E data w
      = audit_loop E generate_content (audit_prompt data) [0, 1, 2] w"
    using assms by (simp add: generate_audit_and_message_def attempts_eq)
  have eff: "slept w' = slept v \<and> calls w' = calls v + 1" if "?att v = (r, w')" for v r w'
    using audit_try_effect [OF that] by simp
  have s: "slept (sleep retry_delay v) = slept v @ [60] \<and> calls (sleep retry_delay v) = calls v" for v
    by (simp add: sleep_def retry_delay_def)
  have p1: "generate_audit_and_message E data w = (generic_error_result, w1)
       \<and> slept w1 = slept w \<and> calls w1 = calls w + 1"
    if "?att w = (Inl e1, w1)" "\<not> rate_limited e1"
    using that eff [OF that(1)] by (simp add: g)
  have p2: "generate_audit_and_message E data w = (generic_error_result, w2)
       \<and> slept w2 = slept w @ [60] \<and> calls w2 = calls w + 2"
    if "?att w = (Inl e1, w1)" "rate_limited e1"
      "?att (sleep retry_delay w1) = (Inl e2, w2)" "\<not> rate_limited e2"
    using that eff [OF that(1)] eff [OF that(3)] s [of w1]
    by (simp add: g max_retries_def)
  have p3: "generate_audit_and_message E data w = (generic_error_result, w3)
       \<and> slept w3 = slept w @ [60, 60] \<and> calls w3 = calls w + 3"
    if "?att w = (Inl e1, w1)" "rate_limited e1"
      "?att (sleep retry_delay w1) = (Inl e2, w2)" "rate_limited e2"
      "?att (sleep retry_delay w2) = (Inl e3, w3)" "\<not> rate_limited e3"
    using that eff [OF that(1)] eff [OF that(3)] eff [OF that(5)] s [of w1] s [of w2]
    by (simp add: g max_retries_def)
  have p4: "generate_audit_and_message E data w = (rate_limit_result, w3)
       \<and> slept w3 = slept w @ [60, 60] \<and> calls w3 = calls w + 3"
    if "?att w = (Inl e1, w1)" "rate_limited e1"
      "?att (sleep retry_delay w1) = (Inl e2, w2)" "rate_limited e2"
      "?att (sleep retry_delay w2) = (Inl e3, w3)" "rate_limited e3"
    using that eff [OF that(1)] eff [OF that(3)] eff [OF that(5)] s [of w1] s [of w2]
    by (simp add: g max_retries_def)
  have b1: "calls (snd (generate_audit_and_message E data w)) \<le> calls w + 3"
    using audit_loop_calls [of E generate_content "audit_prompt data" "[0, 1, 2]" w]
    by (simp add: g)
  have b2: "length (slept (snd (generate_audit_and_message E data w))) \<le> length (slept w) + 2"
    using audit_loop_sleeps [of "[0, 1, 2]" E generate_content "audit_prompt data" w]
    by (simp add: g max_retries_def)
  show ?thesis
    using p1 p2 p3 p4 b1 b2 fixed_scores(2,3) by blast
qed


lemma rate_limited_examples:
  "rate_limited (ModelError ''429 Too Many Requests'')"
  "rate_limited (ModelError ''Quota exceeded for quota metric'')"
  "rate_limited (ModelError ''HTTP 429'')"
  "\<not> rate_limited (ModelError ''500 internal error'')"
  by (simp_all add: rate_limited_def)

theorem audit_retry_policy_witness:
  "rate_limited (ModelError ''429 Too Many Requests'')
   \<and> rate_limited (ModelError ''Quota exceeded for quota metric'')
   \<and> rate_limited (ModelError ''HTTP 429'')
   \<and> \<not> rate_limited (ModelError ''500 internal error'')
   \<and> generate_audit_and_message (fake_env (Some fake_client))
        \<lparr>ar_business_name = ''Apex Plumbing Co'', ar_industry = ''plumbing'',
         ar_location = ''Austin, TX'', ar_website = None\<rparr>
        (fake_world [Inl (ModelError ''429 Too Many Requests''),
                     Inl (ModelError ''Quota exceeded for quota metric''),
                     Inl (ModelError ''HTTP 429'')])
      = (rate_limit_result, \<lparr>rng_state = 0, client_state = [], calls = 3, slept = [60, 60]\<rparr>)
   \<and> generate_audit_and_message (fake_env (Some fake_client))
        \<lparr>ar_business_name = ''Apex Plumbing Co'', ar_industry = ''plumbing'',
         ar_location = ''Austin, TX'', ar_website = None\<rparr>
        (fake_world [Inl (ModelError ''500 internal error'')])
      = (generic_error_result, \<lparr>rng_state = 0, client_state = [], calls = 1, slept = []\<rparr>)
   \<and> generate_audit_and_message (fake_env (Some fake_client))
        \<lparr>ar_business_name = ''Apex Plumbing Co'', ar_industry = ''plumbing'',
         ar_location = ''Austin, TX'', ar_website = None\<rparr>
        (fake_world [Inl (ModelError ''429 Too Many Requests''),
                     Inl (ModelError ''500 internal error'')])
      = (generic_error_result, \<lparr>rng_state = 0, client_state = [], calls = 2, slept = [60]\<rparr>)
   \<and> generate_audit_and_message (fake_env (Some fake_client))
        \<lparr>ar_business_name = ''Apex Plumbing Co'', ar_industry = ''plumbing'',
         ar_location = ''Austin, TX'', ar_website = None\<rparr>
        (fake_world [Inl (ModelError ''429 Too Many Requests''),
                     Inl (ModelError ''Quota exceeded for quota metric''),
                     Inl (ModelError ''500 internal error'')])
      = (generic_error_result, \<lparr>rng_state = 0, client_state = [], calls = 3, slept = [60, 60]\<rparr>)"
proof -
  let ?E = "fake_env (Some fake_client) :: (nat, (exn + string) list) env"
  let ?d = "\<lparr>ar_business_name = ''Apex Plumbing Co'', ar_industry = ''plumbing'',
         ar_location = ''Austin, TX'', ar_website = None\<rparr>"
  let ?A = "ModelError ''429 Too Many Requests''"
  let ?B = "ModelError ''Quota exceeded for quota metric''"
  let ?C = "ModelError ''HTTP 429''"
  let ?D = "ModelError ''500 internal error''"
  have m: "model ?E = Some fake_client"
    by (simp add: fake_env_def)
  have t: "audit_try ?E fake_client (audit_prompt ?d)
             \<lparr>rng_state = 0, client_state = Inl e # rest, calls = n, slept = sl\<rparr>
           = (Inl e, \<lparr>rng_state = 0, client_state = rest, calls = n + 1, slept = sl\<rparr>)"
    for e rest n sl
    by (simp add: audit_try_def fake_client_def)
  have z: "sleep retry_delay \<lparr>rng_state = 0 :: nat, client_state = rest :: (exn + string) list,
              calls = n, slept = sl\<rparr>
           = \<lparr>rng_state = 0, client_state = rest, calls = n, slept = sl @ [60]\<rparr>"
    for rest n sl
    by (simp add: sleep_def retry_delay_def)
  note r = rate_limited_examples
  note th = audit_retry_policy [OF m, where data = ?d]
  have c4: "generate_audit_and_message ?E ?d (fake_world [Inl ?A, Inl ?B, Inl ?C])
      = (rate_limit_result, \<lparr>rng_state = 0, client_state = [], calls = 3, slept = [60, 60]\<rparr>)"
    using th [where w = "fake_world [Inl ?A, Inl ?B, Inl ?C]" and ?e1.0 = ?A and ?e2.0 = ?B and ?e3.0 = ?C
        and ?w1.0 = "\<lparr>rng_state = 0, client_state = [Inl ?B, Inl ?C], calls = 1, slept = []\<rparr>"
        and ?w2.0 = "\<lparr>rng_state = 0, client_state = [Inl ?C], calls = 2, slept = [60]\<rparr>"
        and ?w3.0 = "\<lparr>rng_state = 0, client_state = [], calls = 3, slept = [60, 60]\<rparr>"]
    by (simp add: fake_world_def t z r)
  have c1: "generate_audit_and_message ?E ?d (fake_world [Inl ?D])
      = (generic_error_result, \<lparr>rng_state = 0, client_state = [], calls = 1, slept = []\<rparr>)"
    using th [where w = "fake_world [Inl ?D]" and ?e1.0 = ?D
        and ?w1.0 = "\<lparr>rng_state = 0, client_state = [], calls = 1, slept = []\<rparr>"]
    by (simp add: fake_world_def t z r)
  have c2: "generate_audit_and_message ?E ?d (fake_world [Inl ?A, Inl ?D])
      = (generic_error_result, \<lparr>rng_state = 0, client_state = [], calls = 2, slept = [60]\<rparr>)"
    using th [where w = "fake_world [Inl ?A, Inl ?D]" and ?e1.0 = ?A and ?e2.0 = ?D
        and ?w1.0 = "\<lparr>rng_state = 0, client_state = [Inl ?D], calls = 1, slept = []\<rparr>"
        and ?w2.0 = "\<lparr>rng_state = 0, client_state = [], calls = 2, slept = [60]\<rparr>"]
    by (simp add: fake_world_def t z r)
  have c3: "generate_audit_and_message ?E ?d (fake_world [Inl ?A, Inl ?B, Inl ?D])
      = (generic_error_result, \<lparr>rng_state = 0, client_state = [], calls = 3, slept = [60, 60]\<rparr>)"
    using th [where w = "fake_world [Inl ?A, Inl ?B, Inl ?D]" and ?e1.0 = ?A and ?e2.0 = ?B and ?e3.0 = ?D
        and ?w1.0 = "\<lparr>rng_state = 0, client_state = [Inl ?B, Inl ?D], calls = 1, slept = []\<rparr>"
        and ?w2.0 = "\<lparr>rng_state = 0, client_state = [Inl ?D], calls = 2, slept = [60]\<rparr>"
        and ?w3.0 = "\<lparr>rng_state = 0, client_state = [], calls = 3, slept = [60, 60]\<rparr>"]
    by (simp add: fake_world_def t z r)
  show ?thesis
    by (simp only: r c1 c2 c3 c4 simp_thms)
qed

text \<open>
  C8: with no model configured, the audit service returns the fixed result with score 45,
  whose pain points name the missing API key and whose message asks to configure the AI
  backend; the state is unchanged, so no call to a model and no sleep is made.
\<close>

theorem audit_no_model:
  assumes "model E = None"
  shows "generate_audit_and_message E data w = (no_model_result, w)
    \<and> audit_score (fst (generate_audit_and_message E data w)) = Some (PInt 45)
    \<and> dict_field (fst (generate_audit_and_message E data w)) ''pain_points''
        = Some (PList [PStr ''No API Key Detected'', PStr ''Cannot analyze real data'',
                       PStr ''Please set GEMINI_API_KEY''])
    \<and> contains ''API Key'' ''No API Key Detected''
    \<and> dict_field (fst (generate_audit_and_message E data w)) ''outreach_message''
        = Some (PStr ''System Error: Please configure the AI backend.'')
    \<and> contains ''configure'' ''System Error: Please configure the AI backend.''
    \<and> calls (snd (generate_audit_and_message E data w)) = calls w
    \<and> slept (snd (generate_audit_and_message E data w)) = slept w"
proof -
  have g: "generate_audit_and_message E data w = (no_model_result, w)"
    using assms by (simp add: generate_audit_and_message_def)
  have "contains ''API Key'' ''No API Key Detected''"
    by simp
  moreover have "contains ''configure'' ''System Error: Please configure the AI backend.''"
    by simp
  moreover have "dict_field no_model_result ''pain_points''
        = Some (PList [PStr ''No API Key Detected'', PStr ''Cannot analyze real data'',
                       PStr ''Please set GEMINI_API_KEY''])"
    by (simp add: dict_field_def no_model_result_def)
  moreover have "dict_field no_model_result ''outreach_message''
        = Some (PStr ''System Error: Please configure the AI backend.'')"
    by (simp add: dict_field_def no_model_result_def)
  ultimately show ?thesis
    by (simp only: g fst_conv snd_conv fixed_scores simp_thms)
qed

theorem audit_no_model_witness:
  "model (fake_env None :: (nat, (exn + string) list) env) = None
   \<and> generate_audit_and_message (fake_env None)
        \<lparr>ar_business_name = ''Apex Plumbing Co'', ar_industry = ''plumbing'',
         ar_location = ''Austin, TX'', ar_website = Some ''www.apexplumbing.com''\<rparr>
        (fake_world [Inr score_150_text])
      = (no_model_result, fake_world [Inr score_150_text])
   \<and> audit_score (fst (generate_audit_and_message (fake_env None)
        \<lparr>ar_business_name = ''Apex Plumbing Co'', ar_industry = ''plumbing'',
         ar_location = ''Austin, TX'', ar_website = Some ''www.apexplumbing.com''\<rparr>
        (fake_world [Inr score_150_text]))) = Some (PInt 45)"
proof -
  have m: "model (fake_env None :: (nat, (exn + string) list) env) = None"
    by (simp add: fake_env_def)
  show ?thesis
    using audit_no_model [OF m, of "\<lparr>ar_business_name = ''Apex Plumbing Co'', ar_industry = ''plumbing'',
         ar_location = ''Austin, TX'', ar_website = Some ''www.apexplumbing.com''\<rparr>"
        "fake_world [Inr score_150_text]"] m
    by blast
qed

text \<open>
  C7, as stated, fails on the success path: the parsed response is returned as it is, so a
  response whose \<open>audit_score\<close> is 150 gives a result whose \<open>audit_score\<close> is 150.
\<close>

theorem audit_score_counterexample:
  "audit_score (fst (generate_audit_and_message (fake_env (Some fake_client))
        \<lparr>ar_business_name = ''Apex Plumbing Co'', ar_industry = ''plumbing'',
         ar_location = ''Austin, TX'', ar_website = None\<rparr>
        (fake_world [Inr score_150_text]))) = Some (PInt 150)
   \<and> \<not> score_in_range (fst (generate_audit_and_message (fake_env (Some fake_client))
        \<lparr>ar_business_name = ''Apex Plumbing Co'', ar_industry = ''plumbing'',
         ar_location = ''Austin, TX'', ar_website = None\<rparr>
        (fake_world [Inr score_150_text])))"
proof -
  have j: "fake_json_loads score_150_text
     = Inr (PDict [(''audit_score'', PInt 150), (''pain_points'', PList []),
                    (''improvements'', PList []), (''outreach_message'', PStr [])])"
    by (simp add: fake_json_loads_def score_150_text_def two_items_text_def mixed_items_text_def dq_def)
  have "fst (generate_audit_and_message (fake_env (Some fake_client))
        \<lparr>ar_business_name = ''Apex Plumbing Co'', ar_industry = ''plumbing'',
         ar_location = ''Austin, TX'', ar_website = None\<rparr>
        (fake_world [Inr score_150_text]))
    = PDict [(''audit_score'', PInt 150), (''pain_points'', PList []),
                    (''improvements'', PList []), (''outreach_message'', PStr [])]"
    by (simp add: generate_audit_and_message_def attempts_eq audit_try_def fake_env_def
        fake_client_def fake_world_def j)
  then show ?thesis
    by (simp add: score_in_range_def audit_score_def dict_field_def)
qed

text \<open>
  C7, amended: the audit service returns the no-model result (score 45) when no model is
  configured; otherwise the rate-limit result (score 0) or the generic-error result (score 0)
  when its last attempt raised, or, when an attempt succeeds, the value that \<open>json.loads\<close>
  produced from the text of the response of that attempt, unchanged: on the first attempt, or
  on the second or third after rate-limited failures. The three fixed results have an integer
  score from 0 to 100; nothing bounds the score of a parsed response.
\<close>

theorem audit_result_shapes:
  "(model E = None \<longrightarrow> generate_audit_and_message E data w = (no_model_result, w))
   \<and> (model E = Some generate_content
        \<and> generate_content (audit_prompt data) (client_state w) = (Inr body, m1)
        \<and> json_loads E body = Inr v \<longrightarrow>
      generate_audit_and_message E data w = (v, w\<lparr>client_state := m1, calls := calls w + 1\<rparr>))
   \<and> (model E = Some generate_content
        \<and> audit_try E generate_content (audit_prompt data) w = (Inl e1, w1) \<and> rate_limited e1
        \<and> generate_content (audit_prompt data) (client_state w1) = (Inr body, m2)
        \<and> json_loads E body = Inr v \<longrightarrow>
      generate_audit_and_message E data w
        = (v, (sleep retry_delay w1)\<lparr>client_state := m2, calls := calls w1 + 1\<rparr>))
   \<and> (model E = Some generate_content
        \<and> audit_try E generate_content (audit_prompt data) w = (Inl e1, w1) \<and> rate_limited e1
        \<and> audit_try E generate_content (audit_prompt data) (sleep retry_delay w1) = (Inl e2, w2)
        \<and> rate_limited e2
        \<and> generate_content (audit_prompt data) (client_state w2) = (Inr body, m3)
        \<and> json_loads E body = Inr v \<longrightarrow>
      generate_audit_and_message E data w
        = (v, (sleep retry_delay w2)\<lparr>client_state := m3, calls := calls w2 + 1\<rparr>))
   \<and> (model E = None \<and> fst (generate_audit_and_message E data w) = no_model_result
      \<or> (\<exists>client w0 e. model E = Some client
            \<and> audit_try E client (audit_prompt data) w0 = (Inl e, snd (generate_audit_and_message E data w))
            \<and> rate_limited e
            \<and> fst (generate_audit_and_message E data w) = rate_limit_result)
      \<or> (\<exists>client w0 e. model E = Some client
            \<and> audit_try E client (audit_prompt data) w0 = (Inl e, snd (generate_audit_and_message E data w))
            \<and> \<not> rate_limited e
            \<and> fst (generate_audit_and_message E data w) = generic_error_result)
      \<or> (\<exists>client w0 response m'. model E = Some client
            \<and> client (audit_prompt data) (client_state w0) = (Inr response, m')
            \<and> json_loads E response = Inr (fst (generate_audit_and_message E data w))
            \<and> snd (generate_audit_and_message E data w)
                = w0\<lparr>client_state := m', calls := calls w0 + 1\<rparr>))
   \<and> score_in_range no_model_result \<and> audit_score no_model_result = Some (PInt 45)
   \<and> score_in_range rate_limit_result \<and> audit_score rate_limit_result = Some (PInt 0)
   \<and> score_in_range generic_error_result \<and> audit_score generic_error_result = Some (PInt 0)"
proof -
  let ?P = "audit_prompt data"
  let ?G = "generate_audit_and_message E data w"
  have n: "?G = (no_model_result, w)" if "model E = None"
    using that by (simp add: generate_audit_and_message_def)
  have g: "?G = audit_loop E client ?P [0, 1, 2] w" if "model E = Some client" for client
    using that by (simp add: generate_audit_and_message_def attempts_eq)
  have p1: "?G = (v, w\<lparr>client_state := m1, calls := calls w + 1\<rparr>)"
    if "model E = Some generate_content"
      "generate_content ?P (client_state w) = (Inr body, m1)" "json_loads E body = Inr v"
    using that(2,3) audit_try_success [of generate_content ?P w body m1 E]
    by (simp add: g [OF that(1)])
  have p2: "?G = (v, (sleep retry_delay w1)\<lparr>client_state := m2, calls := calls w1 + 1\<rparr>)"
    if "model E = Some generate_content"
      "audit_try E generate_content ?P w = (Inl e1, w1)" "rate_limited e1"
      "generate_content ?P (client_state w1) = (Inr body, m2)" "json_loads E body = Inr v"
  proof -
    have "audit_try E generate_content ?P (sleep retry_delay w1)
        = (Inr v, (sleep retry_delay w1)\<lparr>client_state := m2, calls := calls w1 + 1\<rparr>)"
      using audit_try_success [of generate_content ?P "sleep retry_delay w1" body m2 E] that(4,5)
      by (simp add: sleep_def)
    then show ?thesis
      using that(2,3) by (simp add: g [OF that(1)] max_retries_def)
  qed
  have p3: "?G = (v, (sleep retry_delay w2)\<lparr>client_state := m3, calls := calls w2 + 1\<rparr>)"
    if "model E = Some generate_content"
      "audit_try E generate_content ?P w = (Inl e1, w1)" "rate_limited e1"
      "audit_try E generate_content ?P (sleep retry_delay w1) = (Inl e2, w2)" "rate_limited e2"
      "generate_content ?P (client_state w2) = (Inr body, m3)" "json_loads E body = Inr v"
  proof -
    have "audit_try E generate_content ?P (sleep retry_delay w2)
        = (Inr v, (sleep retry_delay w2)\<lparr>client_state := m3, calls := calls w2 + 1\<rparr>)"
      using audit_try_success [of generate_content ?P "sleep retry_delay w2" body m3 E] that(6,7)
      by (simp add: sleep_def)
    then show ?thesis
      using that(2,3,4,5) by (simp add: g [OF that(1)] max_retries_def)
  qed
  have sh: "model E = None \<and> fst ?G = no_model_result
      \<or> (\<exists>client w0 e. model E = Some client
            \<and> audit_try E client ?P w0 = (Inl e, snd ?G) \<and> rate_limited e
            \<and> fst ?G = rate_limit_result)
      \<or> (\<exists>client w0 e. model E = Some client
            \<and> audit_try E client ?P w0 = (Inl e, snd ?G) \<and> \<not> rate_limited e
            \<and> fst ?G = generic_error_result)
      \<or> (\<exists>client w0 response m'. model E = Some client
            \<and> client ?P (client_state w0) = (Inr response, m')
            \<and> json_loads E response = Inr (fst ?G)
            \<and> snd ?G = w0\<lparr>client_state := m', calls := calls w0 + 1\<rparr>)"
  proof (cases "model E")
    case None
    then show ?thesis
      using n by simp
  next
    case (Some client)
    have e: "?G = audit_loop E client ?P [0..<max_retries] w"
      using Some by (simp add: generate_audit_and_message_def)
    obtain w0 where "(\<exists>e. audit_try E client ?P w0 = (Inl e, snd ?G) \<and> rate_limited e
                \<and> fst ?G = rate_limit_result)
          \<or> (\<exists>e. audit_try E client ?P w0 = (Inl e, snd ?G) \<and> \<not> rate_limited e
                \<and> fst ?G = generic_error_result)
          \<or> audit_try E client ?P w0 = (Inr (fst ?G), snd ?G)"
      using audit_loop_last_attempt [of "[0..<max_retries]" E client ?P w] last_attempt
      unfolding e by blast
    then consider
        (limit) e where "audit_try E client ?P w0 = (Inl e, snd ?G)" "rate_limited e"
          "fst ?G = rate_limit_result"
      | (generic) e where "audit_try E client ?P w0 = (Inl e, snd ?G)" "\<not> rate_limited e"
          "fst ?G = generic_error_result"
      | (returned) "audit_try E client ?P w0 = (Inr (fst ?G), snd ?G)"
      by blast
    then show ?thesis
    proof cases
      case limit
      then show ?thesis
        using Some by blast
    next
      case generic
      then show ?thesis
        using Some by blast
    next
      case returned
      then show ?thesis
        using Some audit_try_returned [OF returned] by blast
    qed
  qed
  have sc: "score_in_range no_model_result" "score_in_range rate_limit_result"
    "score_in_range generic_error_result"
    by (simp_all add: score_in_range_def fixed_scores)
  show ?thesis
    by (intro conjI impI; (elim conjE)?) (rule n p1 p2 p3 sh sc fixed_scores; assumption)+
qed

theorem audit_result_shapes_witness:
  "json_loads (fake_env (Some fake_client)) score_150_text
      = Inr (PDict [(''audit_score'', PInt 150), (''pain_points'', PList []),
                    (''improvements'', PList []), (''outreach_message'', PStr [])])
   \<and> generate_audit_and_message (fake_env (Some fake_client))
        \<lparr>ar_business_name = ''Apex Plumbing Co'', ar_industry = ''plumbing'',
         ar_location = ''Austin, TX'', ar_website = None\<rparr>
        (fake_world [Inr score_150_text])
      = (PDict [(''audit_score'', PInt 150), (''pain_points'', PList []),
                (''improvements'', PList []), (''outreach_message'', PStr [])],
         \<lparr>rng_state = 0, client_state = [], calls = 1, slept = []\<rparr>)
   \<and> generate_audit_and_message (fake_env (Some fake_client))
        \<lparr>ar_business_name = ''Apex Plumbing Co'', ar_industry = ''plumbing'',
         ar_location = ''Austin, TX'', ar_website = None\<rparr>
        (fake_world [Inl (ModelError ''429 Too Many Requests''), Inr score_150_text])
      = (PDict [(''audit_score'', PInt 150), (''pain_points'', PList []),
                (''improvements'', PList []), (''outreach_message'', PStr [])],
         \<lparr>rng_state = 0, client_state = [], calls = 2, slept = [60]\<rparr>)
   \<and> generate_audit_and_message (fake_env (Some fake_client))
        \<lparr>ar_business_name = ''Apex Plumbing Co'', ar_industry = ''plumbing'',
         ar_location = ''Austin, TX'', ar_website = None\<rparr>
        (fake_world [Inl (ModelError ''429 Too Many Requests''),
                     Inl (ModelError ''Quota exceeded for quota metric''), Inr score_150_text])
      = (PDict [(''audit_score'', PInt 150), (''pain_points'', PList []),
                (''improvements'', PList []), (''outreach_message'', PStr [])],
         \<lparr>rng_state = 0, client_state = [], calls = 3, slept = [60, 60]\<rparr>)
   \<and> generate_audit_and_message (fake_env None)
        \<lparr>ar_business_name = ''Apex Plumbing Co'', ar_industry = ''plumbing'',
         ar_location = ''Austin, TX'', ar_website = None\<rparr>
        (fake_world [Inr score_150_text])
      = (no_model_result, fake_world [Inr score_150_text])"
proof -
  let ?E = "fake_env (Some fake_client) :: (nat, (exn + string) list) env"
  let ?N = "fake_env None :: (nat, (exn + string) list) env"
  let ?d = "\<lparr>ar_business_name = ''Apex Plumbing Co'', ar_industry = ''plumbing'',
         ar_location = ''Austin, TX'', ar_website = None\<rparr>"
  let ?v = "PDict [(''audit_score'', PInt 150), (''pain_points'', PList []),
                    (''improvements'', PList []), (''outreach_message'', PStr [])]"
  let ?A = "ModelError ''429 Too Many Requests''"
  let ?B = "ModelError ''Quota exceeded for quota metric''"
  have m: "model ?E = Some fake_client"
    by (simp add: fake_env_def)
  have mn: "model ?N = None"
    by (simp add: fake_env_def)
  have j: "json_loads ?E score_150_text = Inr ?v"
    by (simp add: fake_env_def fake_json_loads_def score_150_text_def two_items_text_def
        mixed_items_text_def dq_def)
  have t: "audit_try ?E fake_client (audit_prompt ?d)
             \<lparr>rng_state = 0, client_state = Inl e # rest, calls = n, slept = sl\<rparr>
           = (Inl e, \<lparr>rng_state = 0, client_state = rest, calls = n + 1, slept = sl\<rparr>)"
    for e rest n sl
    by (simp add: audit_try_def fake_client_def)
  have c: "fake_client (audit_prompt ?d) (r # rest) = (r, rest)" for r rest
    by (simp add: fake_client_def)
  have z: "sleep retry_delay \<lparr>rng_state = 0 :: nat, client_state = rest :: (exn + string) list,
              calls = n, slept = sl\<rparr>
           = \<lparr>rng_state = 0, client_state = rest, calls = n, slept = sl @ [60]\<rparr>"
    for rest n sl
    by (simp add: sleep_def retry_delay_def)
  note r = rate_limited_examples
  note th = audit_result_shapes [where data = ?d]
  have c1: "generate_audit_and_message ?E ?d (fake_world [Inr score_150_text])
      = (?v, \<lparr>rng_state = 0, client_state = [], calls = 1, slept = []\<rparr>)"
    using th [where E = ?E and w = "fake_world [Inr score_150_text]"
        and generate_content = fake_client and body = score_150_text and v = ?v and ?m1.0 = "[]",
        THEN conjunct2, THEN conjunct1]
    by (simp add: fake_world_def m j c)
  have c2: "generate_audit_and_message ?E ?d (fake_world [Inl ?A, Inr score_150_text])
      = (?v, \<lparr>rng_state = 0, client_state = [], calls = 2, slept = [60]\<rparr>)"
    using th [where E = ?E and w = "fake_world [Inl ?A, Inr score_150_text]"
        and generate_content = fake_client and body = score_150_text and v = ?v and ?m2.0 = "[]"
        and ?e1.0 = ?A
        and ?w1.0 = "\<lparr>rng_state = 0, client_state = [Inr score_150_text], calls = 1, slept = []\<rparr>",
        THEN conjunct2, THEN conjunct2, THEN conjunct1]
    by (simp add: fake_world_def m j c t z r)
  have c3: "generate_audit_and_message ?E ?d (fake_world [Inl ?A, Inl ?B, Inr score_150_text])
      = (?v, \<lparr>rng_state = 0, client_state = [], calls = 3, slept = [60, 60]\<rparr>)"
    using th [where E = ?E and w = "fake_world [Inl ?A, Inl ?B, Inr score_150_text]"
        and generate_content = fake_client and body = score_150_text and v = ?v and ?m3.0 = "[]"
        and ?e1.0 = ?A and ?e2.0 = ?B
        and ?w1.0 = "\<lparr>rng_state = 0, client_state = [Inl ?B, Inr score_150_text], calls = 1, slept = []\<rparr>"
        and ?w2.0 = "\<lparr>rng_state = 0, client_state = [Inr score_150_text], calls = 2, slept = [60]\<rparr>",
        THEN conjunct2, THEN conjunct2, THEN conjunct2, THEN conjunct1]
    by (simp add: fake_world_def m j c t z r)
  have c0: "generate_audit_and_message ?N ?d (fake_world [Inr score_150_text])
      = (no_model_result, fake_world [Inr score_150_text])"
    using th [where E = ?N and w = "fake_world [Inr score_150_text]", THEN conjunct1] mn
    by (simp only: simp_thms)
  show ?thesis
    by (simp only: j c0 c1 c2 c3 simp_thms)
qed

section \<open>Identifiers\<close>

lemma mock_lead_id:
  "p_id (fst (mock_lead E industry location page g))
     = ''biz_'' @ str_int (py_hash E (p_name (fst (mock_lead E industry location page g))))"
  by (simp add: mock_lead_def split_beta Let_def)

lemma process_item_named_id:
  assumes "map_of kvs ''name'' = Some (PStr name)"
  shows "\<exists>b. process_item E industry location (PDict kvs) = Inr b \<and> p_name b = name
           \<and> p_id b = ''biz_'' @ take 10 (hexdigest (md5 E (encode name)))"
  using assms by (simp add: process_item_def dict_get_def Let_def)

lemma process_item_unnamed_id:
  assumes "map_of kvs ''name'' = None"
  shows "\<exists>b. process_item E industry location (PDict kvs) = Inr b \<and> p_name b = ''Unknown''
           \<and> p_id b = ''biz_'' @ take 10 (hexdigest (md5 E (encode [])))"
  using assms by (simp add: process_item_def dict_get_def Let_def)

lemma hex_digits_numeral:
  "hex_digits (numeral k) v = hex_digits (pred_numeral k) (v div 16) @ [hex_char (v mod 16)]"
proof -
  have "numeral k = Suc (pred_numeral k)"
    by (rule numeral_eq_Suc)
  then show ?thesis
    by (simp only: hex_digits.simps)
qed

lemma hex_char_table:
  "hex_char 0 = CHR ''0''" "hex_char 1 = CHR ''1''" "hex_char (Suc 0) = CHR ''1''"
  "hex_char 2 = CHR ''2''" "hex_char 3 = CHR ''3''" "hex_char 4 = CHR ''4''"
  "hex_char 5 = CHR ''5''" "hex_char 6 = CHR ''6''" "hex_char 7 = CHR ''7''"
  "hex_char 8 = CHR ''8''" "hex_char 9 = CHR ''9''" "hex_char 10 = CHR ''a''"
  "hex_char 11 = CHR ''b''" "hex_char 12 = CHR ''c''" "hex_char 13 = CHR ''d''"
  "hex_char 14 = CHR ''e''" "hex_char 15 = CHR ''f''"
  by (simp_all add: hex_char_def char_of_eq_iff)

lemma fake_md5_empty: "take 10 (hexdigest (fake_md5 (encode []))) = ''d41d8cd98f''"
  by (simp add: hexdigest_def fake_md5_def encode_def hex_digits_numeral hex_char_table)

lemma fake_md5_unknown: "take 10 (hexdigest (fake_md5 (encode ''Unknown''))) = ''88183b946c''"
proof -
  have "fake_md5 (encode ''Unknown'') = 0x88183b946cc5f0e8c96b2e66e1c74a7e"
    by (simp add: fake_md5_def) (simp add: encode_def encode_char_def)
  then show ?thesis
    by (simp add: hexdigest_def hex_digits_numeral hex_char_table)
qed

text \<open>
  C6 holds for the synthetic variant and for items that carry a name. It fails for an item
  without a \<open>name\<close> key: the id is the digest of the empty string, the name is \<open>Unknown\<close>. On
  the response \<open>[{}, {"name": "Unknown"}]\<close> the two profiles carry the same name and
  different ids.
\<close>

theorem missing_name_id:
  "map (\<lambda>b. (p_name b, p_id b))
     (fst (ai_scout_service (fake_env (Some fake_client)) ''plumbing'' ''Austin, TX'' 1
            (fake_world [Inr two_items_text])))
   = [(''Unknown'', ''biz_d41d8cd98f''), (''Unknown'', ''biz_88183b946c'')]"
proof -
  have j: "fake_json_loads two_items_text = Inr (PList [PDict [], PDict [(''name'', PStr ''Unknown'')]])"
    by (simp add: fake_json_loads_def two_items_text_def mixed_items_text_def dq_def)
  show ?thesis
    by (simp add: ai_scout_service_def scout_try_def fake_env_def fake_client_def fake_world_def
        j iterate_def process_item_def dict_get_def Let_def fake_md5_empty fake_md5_unknown)
qed

end
